theory Spec2Isabelle
  imports Complex_Main "HOL-Library.Word" "HOL-Library.Sublist"
begin

section \<open>Common types\<close>

text \<open>
  Go's \<open>int64\<close> is a 64-bit word read as a signed number (\<open>sint\<close>); \<open>+\<close> wraps.
  Go's \<open>int\<close> (status codes, device state codes) is taken at its 64-bit size.
  A \<open>time.Time\<close> is an instant in nanoseconds relative to the Unix epoch and a
  \<open>time.Duration\<close> a number of nanoseconds.
  A \<open>float64\<close> decoded by \<open>encoding/json\<close> is always finite (the decoder rejects
  numbers out of range and has no literal for NaN or the infinities), so it denotes a
  real number; the code only copies such values and compares them with zero, which is
  exact. A Go \<open>string\<close> is a sequence of bytes, as \<open>string\<close> is here.
\<close>

type_synonym int64 = "64 word"
type_synonym goint = "64 word"
type_synonym time = int
type_synonym duration = int
type_synonym float64 = real

definition Second :: duration where
  "Second = 1000000000"

definition Minute :: duration where
  "Minute = 60 * Second"

definition Hour :: duration where
  "Hour = 60 * Minute"

text \<open>The zero \<open>time.Time\<close> (January 1, year 1, 00:00 UTC), the value of a field never set.\<close>

definition zeroTime :: time where
  "zeroTime = - 62135596800 * Second"

section \<open>deye.go: the telemetry client\<close>

subsection \<open>Data\<close>

text \<open>
  \<open>DeyeClient\<close> without its mutex and its \<open>http.Client\<close>: the sequential model runs one
  caller, for which \<open>Lock\<close>/\<open>Unlock\<close> do nothing (no method calls another while holding
  the lock); the HTTP client is the environment below.
\<close>

record DeyeClient =
  baseURL :: string
  appID :: string
  appSecret :: string
  email :: string
  password :: string
  accessToken :: string
  expiresAt :: time

record tokenRequest =
  AppSecret :: string
  Email :: string
  Password :: string

record tokenResponse =
  Success :: bool
  Code :: string
  Msg :: string
  AccessToken :: string
  RefreshToken :: string
  ExpiresIn :: string

record DeviceListItem =
  DeviceSn :: string
  DeviceID :: int64
  DeviceType :: string
  ProductID :: int64
  StationID :: int64
  ConnectStatus :: goint
  ProductName :: string
  StationName :: string

record DeviceListResponse =
  Success :: bool
  Code :: string
  Msg :: string
  Total :: goint
  Devices :: "DeviceListItem list"

record StationLatestResponse =
  Success :: bool
  Code :: string
  Msg :: string
  GenerationPower :: "float64 option"
  ConsumptionPower :: "float64 option"
  GridPower :: "float64 option"
  PurchasePower :: "float64 option"
  WirePower :: "float64 option"
  BatteryPower :: "float64 option"
  BatterySOC :: "float64 option"
  ChargePower :: "float64 option"
  DischargePower :: "float64 option"
  LastUpdateTime :: float64

record DeviceDataItem =
  Name :: string
  Value :: string
  Unit :: string

record DeviceLatestEntry =
  DeviceSn :: string
  DeviceState :: goint
  CollectionTime :: int64
  DataList :: "DeviceDataItem list"

record DeviceLatestResponse =
  Success :: bool
  Code :: string
  Msg :: string
  DeviceList :: "DeviceLatestEntry list"

record PowerStatus =
  HasGrid :: bool
  GridPower :: float64
  PurchasePower :: float64
  GenerationPower :: float64
  ConsumptionPower :: float64
  BatterySOC :: float64
  BatteryPower :: float64
  DischargePower :: float64
  DeviceOnline :: bool
  DeviceState :: goint
  LastUpdateTime :: float64

text \<open>The request bodies handed to \<open>doRequest\<close> (its \<open>reqBody interface{}\<close>).\<close>

datatype reqBody =
    DeviceListRequest (Page: goint) (Size: goint)
  | StationLatestRequest int64
  | DeviceLatestRequest "string list"

text \<open>
  One constructor for each error the code builds, in the order of the source; \<open>%w\<close>
  wrapping is the constructor's argument. \<open>Panic\<close> is a run-time panic (a slice out of
  range), which nothing in the repository recovers.
\<close>

datatype error =
    MarshalTokenRequest
  | CreateTokenRequest
  | TokenRequestFailed
  | ReadTokenResponse
  | UnmarshalTokenResponse
  | DeyeAuthFailed string string
  | GetToken error
  | MarshalRequest
  | CreateRequest
  | RequestFailed
  | ReadResponse
  | ReAuthFailed error
  | UnmarshalResponse
  | DeviceListFailed string string
  | StationLatestFailed string string
  | DeviceLatestFailed string string
  | GetStation error
  | GetDevice error
  | MarshalGetUpdates
  | GetUpdatesRequest
  | ReadGetUpdatesResponse
  | UnmarshalGetUpdatesResponse
  | GetUpdatesFailed
  | ChromiumNotFound
  | Launcher
  | BrowserConnect
  | Navigate
  | GetCookies
  | CsrfElement
  | CsrfAttribute
  | DtekNewRequest
  | DtekDo
  | DtekReadAll
  | ParseResponse
  | DtekResultFalse
  | Panic

subsection \<open>The environment\<close>

text \<open>
  What the client does to the outside world is a trace of events, oldest first: the
  HTTP requests it sends and its readings of the clock. The outside world is a record
  of functions. What the network answers to a request and what the clock shows may
  depend on everything that happened before (the trace up to and including the
  request or the reading), so a server may reject a token now and accept it later.
  The library functions the code calls and this repository does not define
  (\<open>json.Marshal\<close>, \<open>json.Unmarshal\<close>, \<open>http.NewRequest\<close>, \<open>sha256.Sum256\<close>)
  are fields too.
\<close>

datatype event =
    TokenPost (evUrl: string) (evBody: string)
  | ApiPost (evUrl: string) (evAuthorization: string) (evBody: string)
  | ClockRead

datatype httpResult =
    DoFailed
  | ReadFailed
  | Response (StatusCode: int) (ResponseBody: string)

record env =
  sha256 :: "string \<Rightarrow> string"
  marshalToken :: "tokenRequest \<Rightarrow> string option"
  marshalReq :: "reqBody \<Rightarrow> string option"
  newRequest :: "string \<Rightarrow> bool"
  httpDo :: "event list \<Rightarrow> httpResult"
  timeNow :: "event list \<Rightarrow> time"
  unmarshalToken :: "string \<Rightarrow> tokenResponse option"
  unmarshalDeviceList :: "string \<Rightarrow> DeviceListResponse option"
  unmarshalStation :: "string \<Rightarrow> StationLatestResponse option"
  unmarshalDevice :: "string \<Rightarrow> DeviceLatestResponse option"

subsection \<open>Authentication\<close>

definition sha256Hex :: "env \<Rightarrow> string \<Rightarrow> string" where
  "sha256Hex e s = sha256 e s"

text \<open>
  \<open>Authenticate\<close>. The last log line slices \<open>c.accessToken[:15]\<close>, which panics when
  the stored token has fewer than 15 bytes; the token and its expiry are stored by then.
\<close>

definition Authenticate ::
  "env \<Rightarrow> event list \<Rightarrow> DeyeClient \<Rightarrow> (error + unit) \<times> event list \<times> DeyeClient" where
  "Authenticate e tr c =
    (let body = \<lparr>AppSecret = appSecret c, Email = email c,
                 Password = sha256Hex e (password c)\<rparr>
     in (case marshalToken e body of
          None \<Rightarrow> (Inl MarshalTokenRequest, tr, c)
        | Some data \<Rightarrow>
            let url = baseURL c @ ''/v1.0/account/token?appId='' @ appID c
            in if \<not> newRequest e url then (Inl CreateTokenRequest, tr, c)
               else
                 let tr1 = tr @ [TokenPost url data]
                 in (case httpDo e tr1 of
                      DoFailed \<Rightarrow> (Inl TokenRequestFailed, tr1, c)
                    | ReadFailed \<Rightarrow> (Inl ReadTokenResponse, tr1, c)
                    | Response status respBody \<Rightarrow>
                        (case unmarshalToken e respBody of
                           None \<Rightarrow> (Inl UnmarshalTokenResponse, tr1, c)
                         | Some tokenResp \<Rightarrow>
                             if \<not> tokenResponse.Success tokenResp
                             then (Inl (DeyeAuthFailed (tokenResponse.Code tokenResp)
                                          (tokenResponse.Msg tokenResp)), tr1, c)
                             else
                               let token = (if \<not> prefix ''Bearer '' (AccessToken tokenResp)
                                            then ''Bearer '' @ AccessToken tokenResp
                                            else AccessToken tokenResp);
                                   tr2 = tr1 @ [ClockRead];
                                   c' = c\<lparr>accessToken := token,
                                          expiresAt := timeNow e tr2 + 59 * 24 * Hour\<rparr>
                               in if length (accessToken c') < 15 then (Inl Panic, tr2, c')
                                  else (Inr (), tr2, c')))))"

definition getToken ::
  "env \<Rightarrow> event list \<Rightarrow> DeyeClient \<Rightarrow> (error + string) \<times> event list \<times> DeyeClient" where
  "getToken e tr c =
    (let token = accessToken c;
         tr1 = tr @ [ClockRead];
         expired = (expiresAt c < timeNow e tr1)
     in if token = [] \<or> expired
        then (case Authenticate e tr1 c of
                (Inl err, tr2, c2) \<Rightarrow> (Inl err, tr2, c2)
              | (Inr u, tr2, c2) \<Rightarrow> (Inr (accessToken c2), tr2, c2))
        else (Inr token, tr1, c))"

subsection \<open>Authenticated requests\<close>

text \<open>
  \<open>doRequest\<close> calls itself after a 401 and a successful re-authentication, with nothing
  that counts the attempts, so it need not return: \<open>None\<close> is a call that never returns.
  \<open>decode\<close> is \<open>json.Unmarshal\<close> into the caller's \<open>result\<close>. The log line before the
  request slices \<open>token[:15]\<close> and panics on a shorter token.
\<close>

partial_function (option) doRequest ::
  "env \<Rightarrow> (string \<Rightarrow> 'r option) \<Rightarrow> string \<Rightarrow> reqBody \<Rightarrow> event list \<Rightarrow> DeyeClient
     \<Rightarrow> ((error + 'r) \<times> event list \<times> DeyeClient) option" where
  "doRequest e decode path rb tr c =
    (case getToken e tr c of
       (Inl err, tr1, c1) \<Rightarrow> Some (Inl (GetToken err), tr1, c1)
     | (Inr token, tr1, c1) \<Rightarrow>
         (case marshalReq e rb of
            None \<Rightarrow> Some (Inl MarshalRequest, tr1, c1)
          | Some data \<Rightarrow>
              let url = baseURL c1 @ path
              in if length token < 15 then Some (Inl Panic, tr1, c1)
                 else if \<not> newRequest e url then Some (Inl CreateRequest, tr1, c1)
                 else
                   let tr2 = tr1 @ [ApiPost url token data]
                   in (case httpDo e tr2 of
                        DoFailed \<Rightarrow> Some (Inl RequestFailed, tr2, c1)
                      | ReadFailed \<Rightarrow> Some (Inl ReadResponse, tr2, c1)
                      | Response status respBody \<Rightarrow>
                          if status = 401
                          then (case Authenticate e tr2 c1 of
                                  (Inl err, tr3, c3) \<Rightarrow> Some (Inl (ReAuthFailed err), tr3, c3)
                                | (Inr u, tr3, c3) \<Rightarrow> doRequest e decode path rb tr3 c3)
                          else (case decode respBody of
                                  None \<Rightarrow> Some (Inl UnmarshalResponse, tr2, c1)
                                | Some r \<Rightarrow> Some (Inr r, tr2, c1)))))"

declare doRequest.simps [code]

subsection \<open>The attempts of a call\<close>






subsection \<open>Device list, station and device telemetry\<close>

definition GetDeviceList ::
  "env \<Rightarrow> event list \<Rightarrow> DeyeClient
     \<Rightarrow> ((error + DeviceListResponse) \<times> event list \<times> DeyeClient) option" where
  "GetDeviceList e tr c =
    (case doRequest e (unmarshalDeviceList e) ''/v1.0/device/list'' (DeviceListRequest 1 100) tr c of
       None \<Rightarrow> None
     | Some (Inl err, tr1, c1) \<Rightarrow> Some (Inl err, tr1, c1)
     | Some (Inr resp, tr1, c1) \<Rightarrow>
         if \<not> DeviceListResponse.Success resp
         then Some (Inl (DeviceListFailed (DeviceListResponse.Code resp)
                          (DeviceListResponse.Msg resp)), tr1, c1)
         else Some (Inr resp, tr1, c1))"

definition GetStationLatest ::
  "env \<Rightarrow> int64 \<Rightarrow> event list \<Rightarrow> DeyeClient
     \<Rightarrow> ((error + StationLatestResponse) \<times> event list \<times> DeyeClient) option" where
  "GetStationLatest e stationID tr c =
    (case doRequest e (unmarshalStation e) ''/v1.0/station/latest''
            (StationLatestRequest stationID) tr c of
       None \<Rightarrow> None
     | Some (Inl err, tr1, c1) \<Rightarrow> Some (Inl err, tr1, c1)
     | Some (Inr resp, tr1, c1) \<Rightarrow>
         if \<not> StationLatestResponse.Success resp
         then Some (Inl (StationLatestFailed (StationLatestResponse.Code resp)
                          (StationLatestResponse.Msg resp)), tr1, c1)
         else Some (Inr resp, tr1, c1))"

definition GetDeviceLatest ::
  "env \<Rightarrow> string list \<Rightarrow> event list \<Rightarrow> DeyeClient
     \<Rightarrow> ((error + DeviceLatestResponse) \<times> event list \<times> DeyeClient) option" where
  "GetDeviceLatest e deviceSNs tr c =
    (case doRequest e (unmarshalDevice e) ''/v1.0/device/latest''
            (DeviceLatestRequest deviceSNs) tr c of
       None \<Rightarrow> None
     | Some (Inl err, tr1, c1) \<Rightarrow> Some (Inl err, tr1, c1)
     | Some (Inr resp, tr1, c1) \<Rightarrow>
         if \<not> DeviceLatestResponse.Success resp
         then Some (Inl (DeviceLatestFailed (DeviceLatestResponse.Code resp)
                          (DeviceLatestResponse.Msg resp)), tr1, c1)
         else Some (Inr resp, tr1, c1))"

subsection \<open>Power status\<close>

definition ptrVal :: "float64 option \<Rightarrow> float64" where
  "ptrVal p = (case p of None \<Rightarrow> 0 | Some v \<Rightarrow> v)"

text \<open>
  \<open>GetPowerStatus\<close>. The struct literal leaves \<open>DeviceOnline\<close> and \<open>DeviceState\<close> at
  their zero values; they are overwritten from the first device entry when there is one.
\<close>

definition GetPowerStatus ::
  "env \<Rightarrow> int64 \<Rightarrow> string \<Rightarrow> event list \<Rightarrow> DeyeClient
     \<Rightarrow> ((error + PowerStatus) \<times> event list \<times> DeyeClient) option" where
  "GetPowerStatus e stationID deviceSN tr c =
    (case GetStationLatest e stationID tr c of
       None \<Rightarrow> None
     | Some (Inl err, tr1, c1) \<Rightarrow> Some (Inl (GetStation err), tr1, c1)
     | Some (Inr station, tr1, c1) \<Rightarrow>
         (case GetDeviceLatest e [deviceSN] tr1 c1 of
            None \<Rightarrow> None
          | Some (Inl err, tr2, c2) \<Rightarrow> Some (Inl (GetDevice err), tr2, c2)
          | Some (Inr device, tr2, c2) \<Rightarrow>
              let gridPower = ptrVal (StationLatestResponse.GridPower station);
                  purchasePower = ptrVal (StationLatestResponse.PurchasePower station);
                  hasGrid =
                    (if StationLatestResponse.GridPower station \<noteq> None
                        \<or> StationLatestResponse.PurchasePower station \<noteq> None
                     then 0 < gridPower \<or> 0 < purchasePower
                     else False);
                  status =
                    \<lparr>HasGrid = hasGrid,
                     GridPower = gridPower,
                     PurchasePower = purchasePower,
                     GenerationPower = ptrVal (StationLatestResponse.GenerationPower station),
                     ConsumptionPower = ptrVal (StationLatestResponse.ConsumptionPower station),
                     BatterySOC = ptrVal (StationLatestResponse.BatterySOC station),
                     BatteryPower = ptrVal (StationLatestResponse.BatteryPower station),
                     DischargePower = ptrVal (StationLatestResponse.DischargePower station),
                     DeviceOnline = False,
                     DeviceState = 0,
                     LastUpdateTime = StationLatestResponse.LastUpdateTime station\<rparr>;
                  status' =
                    (if 0 < length (DeviceList device)
                     then status
                       \<lparr>DeviceOnline := (DeviceLatestEntry.DeviceState (DeviceList device ! 0) = 1),
                        DeviceState := DeviceLatestEntry.DeviceState (DeviceList device ! 0)\<rparr>
                     else status)
              in Some (Inr status', tr2, c2)))"

text \<open>The configuration (\<open>Config\<close>), of which \<open>NewDeyeClient\<close> copies the first five fields.\<close>

record Config =
  DeyeBaseURL :: string
  DeyeAppID :: string
  DeyeAppSecret :: string
  DeyeEmail :: string
  DeyePassword :: string
  DeyeStationID :: int64
  DeyeDeviceSN :: string
  TelegramBotToken :: string
  TelegramUserIDs :: "int64 list"
  PollIntervalSec :: goint

definition NewDeyeClient :: "Config \<Rightarrow> DeyeClient" where
  "NewDeyeClient cfg =
    \<lparr>baseURL = DeyeBaseURL cfg, appID = DeyeAppID cfg, appSecret = DeyeAppSecret cfg,
     email = DeyeEmail cfg, password = DeyePassword cfg,
     accessToken = [], expiresAt = zeroTime\<rparr>"

section \<open>The messaging client: the update cursor\<close>

record Chat =
  ID :: int64

record Message =
  MessageID :: int64
  Chat :: Chat
  Text :: string

record Update =
  UpdateID :: int64
  Message :: "Message option"

record getUpdatesRequest =
  Offset :: int64
  Timeout :: goint

record getUpdatesResponse =
  OK :: bool
  Result :: "Update list"

text \<open>\<open>TelegramBot\<close> without its \<open>http.Client\<close>, which is the environment.\<close>

record TelegramBot =
  token :: string
  userIDs :: "int64 list"
  offset :: int64

text \<open>
  The messaging platform: \<open>httpClient.Post\<close> with the URL and the marshalled body, and
  the JSON functions of the library.
\<close>

record tgEnv =
  marshalGetUpdates :: "getUpdatesRequest \<Rightarrow> string option"
  tgPost :: "string \<Rightarrow> string \<Rightarrow> httpResult"
  unmarshalGetUpdates :: "string \<Rightarrow> getUpdatesResponse option"

definition NewTelegramBot :: "string \<Rightarrow> int64 list \<Rightarrow> TelegramBot" where
  "NewTelegramBot tok ids = \<lparr>token = tok, userIDs = ids, offset = 0\<rparr>"

definition apiURL :: "TelegramBot \<Rightarrow> string \<Rightarrow> string" where
  "apiURL b method = ''https://api.telegram.org/bot'' @ token b @ ''/'' @ method"

text \<open>The request body \<open>GetUpdates\<close> builds first: the stored cursor and a 30 s wait.\<close>

definition getUpdatesBody :: "TelegramBot \<Rightarrow> getUpdatesRequest" where
  "getUpdatesBody b = \<lparr>Offset = offset b, Timeout = 30\<rparr>"

definition GetUpdates :: "tgEnv \<Rightarrow> TelegramBot \<Rightarrow> (error + Update list) \<times> TelegramBot" where
  "GetUpdates te b =
    (case marshalGetUpdates te (getUpdatesBody b) of
       None \<Rightarrow> (Inl MarshalGetUpdates, b)
     | Some data \<Rightarrow>
         (case tgPost te (apiURL b ''getUpdates'') data of
            DoFailed \<Rightarrow> (Inl GetUpdatesRequest, b)
          | ReadFailed \<Rightarrow> (Inl ReadGetUpdatesResponse, b)
          | Response status respBody \<Rightarrow>
              (case unmarshalGetUpdates te respBody of
                 None \<Rightarrow> (Inl UnmarshalGetUpdatesResponse, b)
               | Some updResp \<Rightarrow>
                   if \<not> OK updResp then (Inl GetUpdatesFailed, b)
                   else
                     (Inr (getUpdatesResponse.Result updResp),
                      if 0 < length (getUpdatesResponse.Result updResp)
                      then b\<lparr>offset :=
                             UpdateID (getUpdatesResponse.Result updResp
                                         ! (length (getUpdatesResponse.Result updResp) - 1)) + 1\<rparr>
                      else b))))"

section \<open>The outage schedule client: the cache\<close>

record DtekShutdown =
  SubType :: string
  StartDate :: string
  EndDate :: string
  Type :: string
  Reason :: "string list"

record DtekResponse =
  Result :: bool
  Data :: "string \<rightharpoonup> DtekShutdown"

text \<open>\<open>DtekClient\<close> without its mutex (one caller at a time).\<close>

record DtekClient =
  city :: string
  street :: string
  house :: string
  cachedAt :: time
  cachedValue :: "DtekShutdown option"
  cacheHit :: bool

text \<open>
  The outage site, as a trace of what the client does (a fetch through the browser for a
  city and a street, a reading of the clock) and the world's answers. Everything in
  \<open>FetchShutdowns\<close> up to and including the decoding of the JSON envelope happens
  outside the program (the browser binary, the page, its cookies and CSRF token, the
  AJAX call); \<open>scrape\<close> gives its outcome: the error of the step that failed, or the
  decoded envelope.
\<close>

datatype dtekEvent =
    BrowserFetch string string
  | DtekClock

record dtekEnv =
  scrape :: "dtekEvent list \<Rightarrow> error + DtekResponse"
  dtekNow :: "dtekEvent list \<Rightarrow> time"

definition NewDtekClient :: "string \<Rightarrow> string \<Rightarrow> string \<Rightarrow> DtekClient" where
  "NewDtekClient cty str hs =
    \<lparr>city = cty, street = str, house = hs,
     cachedAt = zeroTime, cachedValue = None, cacheHit = False\<rparr>"

definition FetchShutdowns ::
  "dtekEnv \<Rightarrow> dtekEvent list \<Rightarrow> DtekClient \<Rightarrow> (error + DtekShutdown option) \<times> dtekEvent list" where
  "FetchShutdowns de tr d =
    (let tr1 = tr @ [BrowserFetch (city d) (street d)]
     in (case scrape de tr1 of
           Inl err \<Rightarrow> (Inl err, tr1)
         | Inr dtekResp \<Rightarrow>
             if \<not> DtekResponse.Result dtekResp then (Inl DtekResultFalse, tr1)
             else (case Data dtekResp (house d) of
                     None \<Rightarrow> (Inr None, tr1)
                   | Some shutdown \<Rightarrow> (Inr (Some shutdown), tr1))))"

definition dtekCacheTTL :: duration where
  "dtekCacheTTL = 10 * Minute"

definition ClearCache :: "DtekClient \<Rightarrow> DtekClient" where
  "ClearCache d = d\<lparr>cacheHit := False\<rparr>"

text \<open>
  \<open>GetShutdown\<close>. The clock is read for \<open>time.Since\<close> only when \<open>cacheHit\<close> is set
  (\<open>&&\<close> evaluates its right side only then), and again after a successful fetch.
  \<open>time.Since\<close> clamps its result to the range of \<open>Duration\<close>, which contains ten
  minutes, so the comparison is that of the exact difference.
\<close>

definition GetShutdown ::
  "dtekEnv \<Rightarrow> dtekEvent list \<Rightarrow> DtekClient
     \<Rightarrow> (error + DtekShutdown option) \<times> dtekEvent list \<times> DtekClient" where
  "GetShutdown de tr d =
    (let (fresh, tr1) =
           (if cacheHit d
            then (dtekNow de (tr @ [DtekClock]) - cachedAt d < dtekCacheTTL, tr @ [DtekClock])
            else (False, tr))
     in if fresh then (Inr (cachedValue d), tr1, d)
        else (case FetchShutdowns de tr1 d of
                (Inl err, tr2) \<Rightarrow> (Inl err, tr2, d)
              | (Inr shutdown, tr2) \<Rightarrow>
                  (Inr shutdown, tr2 @ [DtekClock],
                   d\<lparr>cachedAt := dtekNow de (tr2 @ [DtekClock]),
                     cachedValue := shutdown,
                     cacheHit := True\<rparr>)))"

text \<open>
  The line \<open>ShutdownLine\<close> returns: an error notice, "no outages", or the window's start
  and end. The texts themselves are not modelled.
\<close>

datatype shutdownLine =
    LineError
  | LineNoShutdown
  | LineWindow string string

definition ShutdownLine ::
  "dtekEnv \<Rightarrow> dtekEvent list \<Rightarrow> DtekClient \<Rightarrow> shutdownLine \<times> dtekEvent list \<times> DtekClient" where
  "ShutdownLine de tr d =
    (case GetShutdown de tr d of
       (Inl err, tr1, d1) \<Rightarrow> (LineError, tr1, d1)
     | (Inr None, tr1, d1) \<Rightarrow> (LineNoShutdown, tr1, d1)
     | (Inr (Some shutdown), tr1, d1) \<Rightarrow>
         (LineWindow (StartDate shutdown) (EndDate shutdown), tr1, d1))"

section \<open>The power state monitor\<close>

text \<open>
  A broadcast message is the format function applied to its arguments; the text is not
  rendered. The three functions give texts with different headings.
\<close>

datatype message =
    formatStatusMessage PowerStatus shutdownLine
  | formatPowerOnMessage PowerStatus shutdownLine
  | formatPowerOffMessage PowerStatus shutdownLine

text \<open>
  What \<open>runDeyePoller\<close> keeps between cycles: its local \<open>lastHasGrid\<close> (\<open>nil\<close> before
  the first sample), and the outage client the messages ask for their last line.
\<close>

record pollerState =
  lastHasGrid :: "bool option"
  dtekTrace :: "dtekEvent list"
  dtek :: DtekClient

text \<open>
  One cycle, the closure \<open>checkAndNotify\<close>. \<open>sample\<close> is what the cycle's call of
  \<open>deye.GetPowerStatus\<close> returned (\<open>Inl\<close> its error); the result is the list of
  messages handed to \<open>bot.Broadcast\<close> in this cycle, and the state.
\<close>

definition checkAndNotify ::
  "dtekEnv \<Rightarrow> error + PowerStatus \<Rightarrow> pollerState \<Rightarrow> message list \<times> pollerState" where
  "checkAndNotify de sample st =
    (case sample of
       Inl err \<Rightarrow> ([], st)
     | Inr status \<Rightarrow>
         let currentHasGrid = HasGrid status
         in (case lastHasGrid st of
               None \<Rightarrow>
                 (case ShutdownLine de (dtekTrace st) (dtek st) of
                    (line, tr1, d1) \<Rightarrow>
                      ([formatStatusMessage status line],
                       st\<lparr>lastHasGrid := Some currentHasGrid, dtekTrace := tr1, dtek := d1\<rparr>))
             | Some lastFlag \<Rightarrow>
                 if currentHasGrid \<noteq> lastFlag
                 then (case ShutdownLine de (dtekTrace st) (dtek st) of
                         (line, tr1, d1) \<Rightarrow>
                           ([if currentHasGrid then formatPowerOnMessage status line
                             else formatPowerOffMessage status line],
                            st\<lparr>lastHasGrid := Some currentHasGrid, dtekTrace := tr1, dtek := d1\<rparr>))
                 else ([], st)))"

text \<open>
  The cycles of a run, in order: the immediate first check and one per tick until the
  context is cancelled. The result lists the messages of each cycle.
\<close>

fun pollCycles ::
  "dtekEnv \<Rightarrow> pollerState \<Rightarrow> (error + PowerStatus) list \<Rightarrow> message list list \<times> pollerState" where
  "pollCycles de st [] = ([], st)"
| "pollCycles de st (sample # samples) =
     (case checkAndNotify de sample st of
        (out, st1) \<Rightarrow>
          (case pollCycles de st1 samples of
             (outs, st2) \<Rightarrow> (out # outs, st2)))"

definition runDeyePoller ::
  "dtekEnv \<Rightarrow> dtekEvent list \<Rightarrow> DtekClient \<Rightarrow> (error + PowerStatus) list
     \<Rightarrow> message list list \<times> pollerState" where
  "runDeyePoller de tr d samples =
     pollCycles de \<lparr>lastHasGrid = None, dtekTrace = tr, dtek = d\<rparr> samples"

text \<open>An alert is a power-on or power-off message, as opposed to the status message.\<close>

fun isAlert :: "message \<Rightarrow> bool" where
  "isAlert (formatStatusMessage s l) = False"
| "isAlert (formatPowerOnMessage s l) = True"
| "isAlert (formatPowerOffMessage s l) = True"

text \<open>
  The specification's reference point: the flag of the most recent cycle of a sequence
  whose sample succeeded, if there is one.
\<close>

fun precedingFlag :: "(error + PowerStatus) list \<Rightarrow> bool option" where
  "precedingFlag [] = None"
| "precedingFlag (sample # samples) =
     (case precedingFlag samples of
        Some f \<Rightarrow> Some f
      | None \<Rightarrow> (case sample of Inl err \<Rightarrow> None | Inr status \<Rightarrow> Some (HasGrid status)))"

section \<open>Concurrent callers of getToken\<close>

text \<open>
  Several goroutines inside \<open>getToken\<close>, interleaved. Every access to the token and its
  expiry in \<open>getToken\<close> and \<open>Authenticate\<close> lies between a \<open>Lock\<close> and an \<open>Unlock\<close> of
  \<open>c.mu\<close>, so a caller's steps are: acquiring the lock (possible only when it is free),
  the locked region up to its \<open>Unlock\<close> as one step, and the unlocked test in between.
  The program points of one caller:
  \<^item> \<open>GT_Lock1\<close>: at the first \<open>c.mu.Lock()\<close> of \<open>getToken\<close>;
  \<^item> \<open>GT_Read\<close>: holding the lock, about to read the token and the clock and unlock;
  \<^item> \<open>GT_Check token expired\<close>: at \<open>if token == "" || expired\<close>, lock released;
  \<^item> \<open>AU_Lock\<close>: at the \<open>c.mu.Lock()\<close> of \<open>Authenticate\<close>;
  \<^item> \<open>AU_Exchange\<close>: holding the lock, about to run the body of \<open>Authenticate\<close>
    (the exchange with the provider), which unlocks on return;
  \<^item> \<open>GT_Lock2\<close>: at the second \<open>c.mu.Lock()\<close> of \<open>getToken\<close>;
  \<^item> \<open>GT_Read2\<close>: holding the lock, about to re-read the token and unlock;
  \<^item> \<open>Done r\<close>: returned \<open>r\<close>.
\<close>

datatype pc =
    GT_Lock1
  | GT_Read
  | GT_Check string bool
  | AU_Lock
  | AU_Exchange
  | GT_Lock2
  | GT_Read2
  | Done "error + string"

record 'tid sys =
  client :: DeyeClient
  mu :: "'tid option"
  trace :: "event list"
  pcs :: "'tid \<Rightarrow> pc"

definition stepThread :: "env \<Rightarrow> 'tid \<Rightarrow> 'tid sys \<Rightarrow> 'tid sys option" where
  "stepThread e t s =
    (case pcs s t of
       GT_Lock1 \<Rightarrow>
         if mu s = None then Some (s\<lparr>mu := Some t, pcs := (pcs s)(t := GT_Read)\<rparr>) else None
     | GT_Read \<Rightarrow>
         Some (s\<lparr>mu := None,
                 trace := trace s @ [ClockRead],
                 pcs := (pcs s)(t := GT_Check (accessToken (client s))
                                      (expiresAt (client s) < timeNow e (trace s @ [ClockRead])))\<rparr>)
     | GT_Check tok expired \<Rightarrow>
         Some (s\<lparr>pcs := (pcs s)(t := if tok = [] \<or> expired then AU_Lock else Done (Inr tok))\<rparr>)
     | AU_Lock \<Rightarrow>
         if mu s = None then Some (s\<lparr>mu := Some t, pcs := (pcs s)(t := AU_Exchange)\<rparr>) else None
     | AU_Exchange \<Rightarrow>
         (case Authenticate e (trace s) (client s) of
            (Inl err, tr1, c1) \<Rightarrow>
              Some (s\<lparr>client := c1, mu := None, trace := tr1,
                      pcs := (pcs s)(t := Done (Inl err))\<rparr>)
          | (Inr u, tr1, c1) \<Rightarrow>
              Some (s\<lparr>client := c1, mu := None, trace := tr1,
                      pcs := (pcs s)(t := GT_Lock2)\<rparr>))
     | GT_Lock2 \<Rightarrow>
         if mu s = None then Some (s\<lparr>mu := Some t, pcs := (pcs s)(t := GT_Read2)\<rparr>) else None
     | GT_Read2 \<Rightarrow>
         Some (s\<lparr>mu := None, pcs := (pcs s)(t := Done (Inr (accessToken (client s))))\<rparr>)
     | Done r \<Rightarrow> None)"

text \<open>
  A schedule names the caller that moves next; a caller that cannot move (it waits for
  the lock, or has returned) makes the schedule impossible.
\<close>

fun runSchedule :: "env \<Rightarrow> 'tid list \<Rightarrow> 'tid sys \<Rightarrow> 'tid sys option" where
  "runSchedule e [] s = Some s"
| "runSchedule e (t # ts) s =
     (case stepThread e t s of None \<Rightarrow> None | Some s1 \<Rightarrow> runSchedule e ts s1)"

definition holdsLock :: "pc \<Rightarrow> bool" where
  "holdsLock p = (p = GT_Read \<or> p = AU_Exchange \<or> p = GT_Read2)"

definition isTokenPost :: "event \<Rightarrow> bool" where
  "isTokenPost ev = (case ev of TokenPost u b \<Rightarrow> True | ApiPost u a b \<Rightarrow> False | ClockRead \<Rightarrow> False)"

definition isApiPost :: "event \<Rightarrow> bool" where
  "isApiPost ev = (case ev of TokenPost u b \<Rightarrow> False | ApiPost u a b \<Rightarrow> True | ClockRead \<Rightarrow> False)"

text \<open>All callers at the entry of \<open>getToken\<close>, the lock free.\<close>

definition callersAtEntry :: "DeyeClient \<Rightarrow> event list \<Rightarrow> 'tid sys" where
  "callersAtEntry c tr = \<lparr>client = c, mu = None, trace = tr, pcs = (\<lambda>t. GT_Lock1)\<rparr>"

section \<open>Notions used in the statements\<close>



text \<open>The number of authentication requests in a trace.\<close>

definition tokenPosts :: "event list \<Rightarrow> nat" where
  "tokenPosts tr = length (filter isTokenPost tr)"



text \<open>The number of clock readings in a trace.\<close>

definition clockCount :: "dtekEvent list \<Rightarrow> nat" where
  "clockCount tr =
     length (filter (\<lambda>ev. case ev of BrowserFetch cty str \<Rightarrow> False | DtekClock \<Rightarrow> True) tr)"

text \<open>
  The lock discipline: a caller is inside a locked region exactly when it is the holder
  of the mutex.
\<close>

definition lockInv :: "'tid sys \<Rightarrow> bool" where
  "lockInv s = (\<forall>t. holdsLock (pcs s t) \<longleftrightarrow> mu s = Some t)"

text \<open>A caller that has not yet run the exchange of \<open>Authenticate\<close> in this call.\<close>

definition beforeExchange :: "pc \<Rightarrow> bool" where
  "beforeExchange p =
     (case p of GT_Lock1 \<Rightarrow> True | GT_Read \<Rightarrow> True | GT_Check tok expired \<Rightarrow> True
      | AU_Lock \<Rightarrow> True | AU_Exchange \<Rightarrow> True
      | GT_Lock2 \<Rightarrow> False | GT_Read2 \<Rightarrow> False | Done r \<Rightarrow> False)"

text \<open>The program point of one caller.\<close>

definition pcOf :: "'tid \<Rightarrow> 'tid sys \<Rightarrow> pc" where
  "pcOf t s = pcs s t"

text \<open>
  An environment in which \<open>Authenticate\<close> gets as far as sending its request for this
  client: the body can be marshalled and the URL is accepted.
\<close>

definition canPostToken :: "env \<Rightarrow> DeyeClient \<Rightarrow> bool" where
  "canPostToken e c =
     (marshalToken e \<lparr>AppSecret = appSecret c, Email = email c,
                       Password = sha256Hex e (password c)\<rparr> \<noteq> None
      \<and> newRequest e (baseURL c @ ''/v1.0/account/token?appId='' @ appID c))"

text \<open>
  A client and a moment at which two callers entering \<open>getToken\<close> one after the other
  both find the token missing or expired.
\<close>

definition staleForTwo :: "env \<Rightarrow> event list \<Rightarrow> DeyeClient \<Rightarrow> bool" where
  "staleForTwo e tr c =
     (accessToken c = []
      \<or> (expiresAt c < timeNow e (tr @ [ClockRead])
          \<and> expiresAt c < timeNow e (tr @ [ClockRead, ClockRead])))"

section \<open>Concrete environments\<close>

text \<open>
  Small worlds on which the definitions are run: a provider that issues the token
  \<open>0123456789abcdef\<close>, library functions that never fail, a clock that stands at 0, a
  server given as a parameter, and the station and device answers it sends.
\<close>

definition demoStation :: "float64 option \<Rightarrow> float64 option \<Rightarrow> StationLatestResponse" where
  "demoStation grid purchase =
    \<lparr>StationLatestResponse.Success = True, StationLatestResponse.Code = [],
     StationLatestResponse.Msg = [],
     StationLatestResponse.GenerationPower = Some 1200,
     StationLatestResponse.ConsumptionPower = Some 800,
     StationLatestResponse.GridPower = grid, StationLatestResponse.PurchasePower = purchase,
     WirePower = None, StationLatestResponse.BatteryPower = None,
     StationLatestResponse.BatterySOC = Some 75, ChargePower = None,
     StationLatestResponse.DischargePower = None,
     StationLatestResponse.LastUpdateTime = 1700000000\<rparr>"

definition demoDevice :: "DeviceLatestEntry list \<Rightarrow> DeviceLatestResponse" where
  "demoDevice entries =
    \<lparr>DeviceLatestResponse.Success = True, DeviceLatestResponse.Code = [],
     DeviceLatestResponse.Msg = [], DeviceList = entries\<rparr>"

definition demoToken :: tokenResponse where
  "demoToken =
    \<lparr>tokenResponse.Success = True, tokenResponse.Code = [], tokenResponse.Msg = [],
     AccessToken = ''0123456789abcdef'', RefreshToken = [], ExpiresIn = []\<rparr>"

definition demoEnv ::
  "(event list \<Rightarrow> httpResult) \<Rightarrow> StationLatestResponse \<Rightarrow> DeviceLatestResponse \<Rightarrow> env" where
  "demoEnv server station device =
    \<lparr>sha256 = (\<lambda>s. s), marshalToken = (\<lambda>r. Some []), marshalReq = (\<lambda>r. Some []),
     newRequest = (\<lambda>u. True), httpDo = server, timeNow = (\<lambda>tr. 0),
     unmarshalToken = (\<lambda>b. Some demoToken),
     unmarshalDeviceList = (\<lambda>b. None), unmarshalStation = (\<lambda>b. Some station),
     unmarshalDevice = (\<lambda>b. Some device)\<rparr>"

text \<open>A server that answers every request with status 200.\<close>

definition acceptAll :: "event list \<Rightarrow> httpResult" where
  "acceptAll tr = Response 200 []"

definition demoConfig :: Config where
  "demoConfig =
    \<lparr>DeyeBaseURL = ''https://h'', DeyeAppID = ''1'', DeyeAppSecret = ''s'', DeyeEmail = ''m'',
     DeyePassword = ''p'', DeyeStationID = 1, DeyeDeviceSN = ''SN'', TelegramBotToken = ''t'',
     TelegramUserIDs = [1], PollIntervalSec = 60\<rparr>"

text \<open>A client that holds the provider's token, valid for 59 days from time 0.\<close>

definition demoClient :: DeyeClient where
  "demoClient =
    \<lparr>baseURL = ''https://h'', appID = ''1'', appSecret = ''s'', email = ''m'', password = ''p'',
     accessToken = ''Bearer 0123456789abcdef'', expiresAt = 59 * 24 * Hour\<rparr>"

definition tokenPost :: event where
  "tokenPost = TokenPost ''https://h/v1.0/account/token?appId=1'' []"

definition stationPost :: event where
  "stationPost = ApiPost ''https://h/v1.0/station/latest'' ''Bearer 0123456789abcdef'' []"

definition devicePost :: event where
  "devicePost = ApiPost ''https://h/v1.0/device/latest'' ''Bearer 0123456789abcdef'' []"

text \<open>A server that answers 401 to the first \<open>n\<close> API requests and 200 to everything else.\<close>

definition rejectFirst :: "nat \<Rightarrow> event list \<Rightarrow> httpResult" where
  "rejectFirst n tr =
     (if tr \<noteq> [] \<and> isApiPost (last tr) \<and> length (filter isApiPost tr) \<le> n
      then Response 401 [] else Response 200 [])"


text \<open>A messaging platform that answers every poll with the same batch of updates.\<close>

definition demoUpdate :: "int64 \<Rightarrow> Update" where
  "demoUpdate n = \<lparr>UpdateID = n, Message = None\<rparr>"

definition tgDemoEnv :: "Update list \<Rightarrow> tgEnv" where
  "tgDemoEnv batch =
    \<lparr>marshalGetUpdates = (\<lambda>r. Some []), tgPost = (\<lambda>u d. Response 200 []),
     unmarshalGetUpdates = (\<lambda>b. Some \<lparr>OK = True, getUpdatesResponse.Result = batch\<rparr>)\<rparr>"

text \<open>
  An outage site given by the outcome of every scrape, with a clock that shows 0 at its
  first reading and three minutes more at each further reading.
\<close>

definition dtekDemoEnv :: "(error + DtekResponse) \<Rightarrow> dtekEnv" where
  "dtekDemoEnv outcome =
    \<lparr>scrape = (\<lambda>tr. outcome),
     dtekNow = (\<lambda>tr. (int (clockCount tr) - 1) * (3 * Minute))\<rparr>"

definition noOutages :: DtekResponse where
  "noOutages = \<lparr>DtekResponse.Result = True, Data = Map.empty\<rparr>"

definition demoShutdown :: DtekShutdown where
  "demoShutdown =
    \<lparr>SubType = ''2'', StartDate = ''10:00 01.02.2026'', EndDate = ''14:00 01.02.2026'',
     Type = ''1'', Reason = []\<rparr>"

text \<open>A power status with a given grid flag.\<close>

definition demoStatus :: "bool \<Rightarrow> PowerStatus" where
  "demoStatus flag =
    \<lparr>HasGrid = flag, GridPower = (if flag then 230 else 0), PurchasePower = 0,
     GenerationPower = 1200, ConsumptionPower = 800, BatterySOC = 75, BatteryPower = 0,
     DischargePower = 0, DeviceOnline = True, DeviceState = 1, LastUpdateTime = 1700000000\<rparr>"

text \<open>A client as \<open>NewDeyeClient\<close> makes it: no token yet.\<close>

definition freshClient :: DeyeClient where
  "freshClient = NewDeyeClient demoConfig"

section \<open>Power status: the grid flag and the device fields\<close>

text \<open>
  Claim C3. Whenever the two fetches of \<open>GetPowerStatus\<close> succeed, with \<open>station\<close> the
  station-latest response, the call succeeds and \<open>HasGrid\<close> is true exactly when at least
  one of the raw fields \<open>gridPower\<close> and \<open>purchasePower\<close> is present and, with an absent
  value read as zero, at least one of them is strictly greater than zero; that is, exactly
  when one of the two fields is present with a value strictly greater than zero. So with
  both absent the flag is false, and with \<open>gridPower = 0\<close>, \<open>purchasePower = 150\<close> it is
  true. The two power fields of the status are the raw values, zero for an absent one.
\<close>

theorem GetPowerStatus_HasGrid:
  assumes "GetStationLatest e stationID tr c = Some (Inr station, tr1, c1)"
      and "GetDeviceLatest e [deviceSN] tr1 c1 = Some (Inr device, tr2, c2)"
  shows "\<exists>status. GetPowerStatus e stationID deviceSN tr c = Some (Inr status, tr2, c2) \<and>
      (HasGrid status \<longleftrightarrow>
         (StationLatestResponse.GridPower station \<noteq> None
            \<or> StationLatestResponse.PurchasePower station \<noteq> None) \<and>
         (0 < (case StationLatestResponse.GridPower station of None \<Rightarrow> 0 | Some g \<Rightarrow> g)
            \<or> 0 < (case StationLatestResponse.PurchasePower station of None \<Rightarrow> 0 | Some p \<Rightarrow> p))) \<and>
      (HasGrid status \<longleftrightarrow>
         (\<exists>g. StationLatestResponse.GridPower station = Some g \<and> 0 < g)
           \<or> (\<exists>p. StationLatestResponse.PurchasePower station = Some p \<and> 0 < p)) \<and>
      (StationLatestResponse.GridPower station = None
         \<and> StationLatestResponse.PurchasePower station = None \<longrightarrow> \<not> HasGrid status) \<and>
      (StationLatestResponse.GridPower station = Some 0
         \<and> StationLatestResponse.PurchasePower station = Some 150 \<longrightarrow> HasGrid status) \<and>
      PowerStatus.GridPower status
        = (case StationLatestResponse.GridPower station of None \<Rightarrow> 0 | Some g \<Rightarrow> g) \<and>
      PowerStatus.PurchasePower status
        = (case StationLatestResponse.PurchasePower station of None \<Rightarrow> 0 | Some p \<Rightarrow> p)"
proof -
  let ?g = "StationLatestResponse.GridPower station"
  let ?p = "StationLatestResponse.PurchasePower station"
  define status where "status =
     (if 0 < length (DeviceList device)
      then \<lparr>HasGrid = (if ?g \<noteq> None \<or> ?p \<noteq> None then 0 < ptrVal ?g \<or> 0 < ptrVal ?p else False),
            GridPower = ptrVal ?g,
            PurchasePower = ptrVal ?p,
            GenerationPower = ptrVal (StationLatestResponse.GenerationPower station),
            ConsumptionPower = ptrVal (StationLatestResponse.ConsumptionPower station),
            BatterySOC = ptrVal (StationLatestResponse.BatterySOC station),
            BatteryPower = ptrVal (StationLatestResponse.BatteryPower station),
            DischargePower = ptrVal (StationLatestResponse.DischargePower station),
            DeviceOnline = (DeviceLatestEntry.DeviceState (DeviceList device ! 0) = 1),
            DeviceState = DeviceLatestEntry.DeviceState (DeviceList device ! 0),
            LastUpdateTime = StationLatestResponse.LastUpdateTime station\<rparr>
      else \<lparr>HasGrid = (if ?g \<noteq> None \<or> ?p \<noteq> None then 0 < ptrVal ?g \<or> 0 < ptrVal ?p else False),
            GridPower = ptrVal ?g,
            PurchasePower = ptrVal ?p,
            GenerationPower = ptrVal (StationLatestResponse.GenerationPower station),
            ConsumptionPower = ptrVal (StationLatestResponse.ConsumptionPower station),
            BatterySOC = ptrVal (StationLatestResponse.BatterySOC station),
            BatteryPower = ptrVal (StationLatestResponse.BatteryPower station),
            DischargePower = ptrVal (StationLatestResponse.DischargePower station),
            DeviceOnline = False,
            DeviceState = 0,
            LastUpdateTime = StationLatestResponse.LastUpdateTime station\<rparr>)"
  have run: "GetPowerStatus e stationID deviceSN tr c = Some (Inr status, tr2, c2)"
    using assms by (simp add: GetPowerStatus_def Let_def status_def)
  have flag: "HasGrid status = (if ?g \<noteq> None \<or> ?p \<noteq> None then 0 < ptrVal ?g \<or> 0 < ptrVal ?p else False)"
    and grid: "PowerStatus.GridPower status = ptrVal ?g"
    and purchase: "PowerStatus.PurchasePower status = ptrVal ?p"
    by (simp_all add: status_def)
  have "(HasGrid status \<longleftrightarrow>
           (?g \<noteq> None \<or> ?p \<noteq> None) \<and>
           (0 < (case ?g of None \<Rightarrow> 0 | Some g \<Rightarrow> g) \<or> 0 < (case ?p of None \<Rightarrow> 0 | Some p \<Rightarrow> p)))"
    using flag by (simp add: ptrVal_def)
  moreover have "(HasGrid status \<longleftrightarrow> (\<exists>g. ?g = Some g \<and> 0 < g) \<or> (\<exists>p. ?p = Some p \<and> 0 < p))"
    using flag by (cases ?g; cases ?p) (simp_all add: ptrVal_def)
  moreover have "?g = None \<and> ?p = None \<longrightarrow> \<not> HasGrid status"
    using flag by simp
  moreover have "?g = Some 0 \<and> ?p = Some 150 \<longrightarrow> HasGrid status"
    using flag by (simp add: ptrVal_def)
  moreover have "PowerStatus.GridPower status = (case ?g of None \<Rightarrow> 0 | Some g \<Rightarrow> g)"
    using grid by (simp add: ptrVal_def)
  moreover have "PowerStatus.PurchasePower status = (case ?p of None \<Rightarrow> 0 | Some p \<Rightarrow> p)"
    using purchase by (simp add: ptrVal_def)
  ultimately show ?thesis using run by blast
qed

text \<open>
  The two cases the claim names, run: \<open>gridPower = 0\<close> with \<open>purchasePower = 150\<close> gives
  a true flag, both fields absent give a false one.
\<close>

theorem GetPowerStatus_HasGrid_witness:
  "(\<exists>status. GetPowerStatus (demoEnv acceptAll (demoStation (Some 0) (Some 150)) (demoDevice []))
                 1 ''SN'' [] demoClient
        = Some (Inr status, [ClockRead, stationPost, ClockRead, devicePost], demoClient)
      \<and> HasGrid status
      \<and> PowerStatus.GridPower status = 0 \<and> PowerStatus.PurchasePower status = 150)
   \<and> (\<exists>status. GetPowerStatus (demoEnv acceptAll (demoStation None None) (demoDevice []))
                 1 ''SN'' [] demoClient
        = Some (Inr status, [ClockRead, stationPost, ClockRead, devicePost], demoClient)
      \<and> \<not> HasGrid status
      \<and> PowerStatus.GridPower status = 0 \<and> PowerStatus.PurchasePower status = 0)"
proof -
  have s1: "GetStationLatest (demoEnv acceptAll (demoStation (Some 0) (Some 150)) (demoDevice []))
        1 [] demoClient
      = Some (Inr (demoStation (Some 0) (Some 150)), [ClockRead, stationPost], demoClient)"
    by code_simp
  have d1: "GetDeviceLatest (demoEnv acceptAll (demoStation (Some 0) (Some 150)) (demoDevice []))
        [''SN''] [ClockRead, stationPost] demoClient
      = Some (Inr (demoDevice []), [ClockRead, stationPost, ClockRead, devicePost], demoClient)"
    by code_simp
  have s2: "GetStationLatest (demoEnv acceptAll (demoStation None None) (demoDevice []))
        1 [] demoClient
      = Some (Inr (demoStation None None), [ClockRead, stationPost], demoClient)"
    by code_simp
  have d2: "GetDeviceLatest (demoEnv acceptAll (demoStation None None) (demoDevice []))
        [''SN''] [ClockRead, stationPost] demoClient
      = Some (Inr (demoDevice []), [ClockRead, stationPost, ClockRead, devicePost], demoClient)"
    by code_simp
  have g1: "StationLatestResponse.GridPower (demoStation (Some 0) (Some 150)) = Some 0"
    and p1: "StationLatestResponse.PurchasePower (demoStation (Some 0) (Some 150)) = Some 150"
    and g2: "StationLatestResponse.GridPower (demoStation None None) = None"
    and p2: "StationLatestResponse.PurchasePower (demoStation None None) = None"
    by (simp_all add: demoStation_def)
  from GetPowerStatus_HasGrid [OF s1 d1] obtain st1 where
    a: "GetPowerStatus (demoEnv acceptAll (demoStation (Some 0) (Some 150)) (demoDevice []))
                 1 ''SN'' [] demoClient
        = Some (Inr st1, [ClockRead, stationPost, ClockRead, devicePost], demoClient)"
       "HasGrid st1" "PowerStatus.GridPower st1 = 0" "PowerStatus.PurchasePower st1 = 150"
    unfolding g1 p1 by auto
  from GetPowerStatus_HasGrid [OF s2 d2] obtain st2 where
    b: "GetPowerStatus (demoEnv acceptAll (demoStation None None) (demoDevice []))
                 1 ''SN'' [] demoClient
        = Some (Inr st2, [ClockRead, stationPost, ClockRead, devicePost], demoClient)"
       "\<not> HasGrid st2" "PowerStatus.GridPower st2 = 0" "PowerStatus.PurchasePower st2 = 0"
    unfolding g2 p2 by auto
  from a b show ?thesis by blast
qed

text \<open>
  Claim C9. When the device-latest response has an empty device list, \<open>GetPowerStatus\<close>
  returns no error but a status whose \<open>DeviceOnline\<close> is false and whose \<open>DeviceState\<close>
  is 0, with every station-derived field filled from the station response as usual.
\<close>

theorem GetPowerStatus_empty_device_list:
  assumes "GetStationLatest e stationID tr c = Some (Inr station, tr1, c1)"
      and "GetDeviceLatest e [deviceSN] tr1 c1 = Some (Inr device, tr2, c2)"
      and "DeviceList device = []"
  shows "GetPowerStatus e stationID deviceSN tr c =
      Some (Inr \<lparr>HasGrid =
                   ((StationLatestResponse.GridPower station \<noteq> None
                       \<or> StationLatestResponse.PurchasePower station \<noteq> None) \<and>
                    (0 < ptrVal (StationLatestResponse.GridPower station)
                       \<or> 0 < ptrVal (StationLatestResponse.PurchasePower station))),
                 GridPower = ptrVal (StationLatestResponse.GridPower station),
                 PurchasePower = ptrVal (StationLatestResponse.PurchasePower station),
                 GenerationPower = ptrVal (StationLatestResponse.GenerationPower station),
                 ConsumptionPower = ptrVal (StationLatestResponse.ConsumptionPower station),
                 BatterySOC = ptrVal (StationLatestResponse.BatterySOC station),
                 BatteryPower = ptrVal (StationLatestResponse.BatteryPower station),
                 DischargePower = ptrVal (StationLatestResponse.DischargePower station),
                 DeviceOnline = False,
                 DeviceState = 0,
                 LastUpdateTime = StationLatestResponse.LastUpdateTime station\<rparr>, tr2, c2)"
  using assms by (simp add: GetPowerStatus_def Let_def)

theorem GetPowerStatus_empty_device_list_witness:
  "GetPowerStatus (demoEnv acceptAll (demoStation (Some 230) None) (demoDevice []))
      7 ''SN'' [] demoClient
    = Some (Inr \<lparr>HasGrid = True, GridPower = 230, PurchasePower = 0, GenerationPower = 1200,
                  ConsumptionPower = 800, BatterySOC = 75, BatteryPower = 0,
                  DischargePower = 0, DeviceOnline = False, DeviceState = 0,
                  LastUpdateTime = 1700000000\<rparr>,
            [ClockRead, stationPost, ClockRead, devicePost], demoClient)"
proof -
  have s: "GetStationLatest (demoEnv acceptAll (demoStation (Some 230) None) (demoDevice []))
        7 [] demoClient
      = Some (Inr (demoStation (Some 230) None), [ClockRead, stationPost], demoClient)"
    by code_simp
  have d: "GetDeviceLatest (demoEnv acceptAll (demoStation (Some 230) None) (demoDevice []))
        [''SN''] [ClockRead, stationPost] demoClient
      = Some (Inr (demoDevice []), [ClockRead, stationPost, ClockRead, devicePost], demoClient)"
    by code_simp
  have l: "DeviceList (demoDevice []) = []"
    by (simp add: demoDevice_def)
  show ?thesis
    using GetPowerStatus_empty_device_list [OF s d l]
    by (simp add: demoStation_def ptrVal_def)
qed

section \<open>The stored token and the Authorization header\<close>






















section \<open>Rejected requests\<close>

text \<open>
  Claim C1. The claim says that a second 401 ends the call with an error. Run against a
  server that rejects the first two station requests and accepts the third, the call
  re-authenticates twice, sends the request three times and returns the third answer.
\<close>

theorem GetStationLatest_retries_after_second_401:
  "GetStationLatest (demoEnv (rejectFirst 2) (demoStation (Some 230) None) (demoDevice [])) 1 [] demoClient
     = Some (Inr (demoStation (Some 230) None),
             [ClockRead, stationPost, tokenPost, ClockRead,
              ClockRead, stationPost, tokenPost, ClockRead,
              ClockRead, stationPost],
             demoClient)"
  by code_simp

section \<open>The update cursor\<close>

lemma GetUpdates_offset:
  assumes "GetUpdates te b = (Inr updates, b')" and "updates \<noteq> []"
  shows "offset b' = UpdateID (last updates) + 1"
  using assms
  by (auto simp: GetUpdates_def last_conv_nth split: option.splits httpResult.splits if_splits)

lemma Max_sorted_last:
  fixes xs :: "int list"
  assumes "sorted xs" and "xs \<noteq> []"
  shows "Max (set xs) = last xs"
  using assms
proof (induction xs)
  case Nil
  then show ?case by simp
next
  case (Cons x xs)
  show ?case
  proof (cases "xs = []")
    case True
    then show ?thesis by simp
  next
    case False
    with Cons have "Max (set xs) = last xs" by simp
    moreover have "x \<le> last xs" using Cons.prems False by auto
    ultimately show ?thesis using False by (simp add: max_def)
  qed
qed

lemma sint_succ:
  fixes x :: int64
  assumes "sint x < 2 ^ 63 - 1"
  shows "sint (x + 1) = sint x + 1"
proof -
  have lo: "- (2 ^ 63) \<le> sint x"
    using sint_ge [of x] by simp
  have "sint (x + 1) = signed_take_bit 63 (sint x + 1)"
    using sint_word_add [of x 1] by simp
  also have "\<dots> = sint x + 1"
    using lo assms by (intro signed_take_bit_int_eq_self) simp_all
  finally show ?thesis .
qed

text \<open>
  Claim C5, amended. After a call of \<open>GetUpdates\<close> that returns a non-empty batch, the
  offset of the next poll request is the identifier of the last update of the batch plus
  one, in \<open>int64\<close> arithmetic. When the identifiers of the batch are in ascending order
  and the last one is below \<open>2^63 - 1\<close>, that is one past the highest identifier of the
  batch: after 5, 6, 7 the next poll uses offset 8.
\<close>

theorem GetUpdates_cursor:
  assumes "GetUpdates te b = (Inr updates, b')" and "updates \<noteq> []"
  shows "Offset (getUpdatesBody b') = UpdateID (last updates) + 1 \<and>
         (sorted (map (\<lambda>u. sint (UpdateID u)) updates)
            \<and> sint (UpdateID (last updates)) < 2 ^ 63 - 1 \<longrightarrow>
          sint (Offset (getUpdatesBody b')) = Max (set (map (\<lambda>u. sint (UpdateID u)) updates)) + 1)"
proof (intro conjI impI)
  show o: "Offset (getUpdatesBody b') = UpdateID (last updates) + 1"
    using GetUpdates_offset [OF assms] by (simp add: getUpdatesBody_def)
  assume a: "sorted (map (\<lambda>u. sint (UpdateID u)) updates)
               \<and> sint (UpdateID (last updates)) < 2 ^ 63 - 1"
  have "Max (set (map (\<lambda>u. sint (UpdateID u)) updates)) = last (map (\<lambda>u. sint (UpdateID u)) updates)"
    using a assms(2) by (intro Max_sorted_last) simp_all
  also have "\<dots> = sint (UpdateID (last updates))"
    using assms(2) by (simp add: last_map)
  finally show "sint (Offset (getUpdatesBody b'))
      = Max (set (map (\<lambda>u. sint (UpdateID u)) updates)) + 1"
    using o a sint_succ by simp
qed

theorem GetUpdates_cursor_witness:
  "GetUpdates (tgDemoEnv [demoUpdate 5, demoUpdate 6, demoUpdate 7]) (NewTelegramBot ''t'' [1])
     = (Inr [demoUpdate 5, demoUpdate 6, demoUpdate 7], \<lparr>token = ''t'', userIDs = [1], offset = 8\<rparr>)
   \<and> Offset (getUpdatesBody \<lparr>token = ''t'', userIDs = [1], offset = 8\<rparr>) = 8
   \<and> sint (8 :: int64) = Max {5, 6, 7} + 1"
proof -
  have g: "GetUpdates (tgDemoEnv [demoUpdate 5, demoUpdate 6, demoUpdate 7]) (NewTelegramBot ''t'' [1])
     = (Inr [demoUpdate 5, demoUpdate 6, demoUpdate 7], \<lparr>token = ''t'', userIDs = [1], offset = 8\<rparr>)"
    by (simp add: GetUpdates_def tgDemoEnv_def NewTelegramBot_def getUpdatesBody_def demoUpdate_def)
  have n: "[demoUpdate 5, demoUpdate 6, demoUpdate 7] \<noteq> []" by simp
  show ?thesis
    using GetUpdates_cursor [OF g n] g
    by (simp add: demoUpdate_def getUpdatesBody_def)
qed

text \<open>
  Claim C5 as stated fails on a batch that is not in ascending order: after the updates
  7, 5, 6 the next poll uses offset 7, not one past the highest identifier.
\<close>

theorem GetUpdates_cursor_unordered_counterexample:
  "GetUpdates (tgDemoEnv [demoUpdate 7, demoUpdate 5, demoUpdate 6]) (NewTelegramBot ''t'' [1])
     = (Inr [demoUpdate 7, demoUpdate 5, demoUpdate 6], \<lparr>token = ''t'', userIDs = [1], offset = 7\<rparr>)
   \<and> sint (Offset (getUpdatesBody \<lparr>token = ''t'', userIDs = [1], offset = 7\<rparr>)) \<noteq> Max {7, 5, 6} + 1"
  by (simp add: GetUpdates_def tgDemoEnv_def NewTelegramBot_def getUpdatesBody_def demoUpdate_def)


section \<open>The outage cache\<close>








text \<open>
  Claim C8. When the fetch of a cache miss fails, \<open>GetShutdown\<close> returns the fetch's
  error and leaves the client, with its cached value, cache timestamp and cache-valid
  flag, as it was; and a call that finds the cache valid returns the cached value. So
  what a later cache-hit check returns is the value cached before the failure.
\<close>

theorem GetShutdown_failed_fetch:
  "(\<not> (cacheHit d \<and> dtekNow de (tr @ [DtekClock]) - cachedAt d < dtekCacheTTL)
      \<and> FetchShutdowns de (if cacheHit d then tr @ [DtekClock] else tr) d = (Inl err, tr2)
    \<longrightarrow> GetShutdown de tr d = (Inl err, tr2, d))
   \<and> (cacheHit d' \<and> dtekNow de (tr' @ [DtekClock]) - cachedAt d' < dtekCacheTTL
    \<longrightarrow> GetShutdown de tr' d' = (Inr (cachedValue d'), tr' @ [DtekClock], d'))"
  by (auto simp: GetShutdown_def)

theorem GetShutdown_failed_fetch_witness:
  "GetShutdown (dtekDemoEnv (Inl Navigate)) [DtekClock, DtekClock, DtekClock, DtekClock, DtekClock]
       \<lparr>city = ''c'', street = ''s'', house = ''1'', cachedAt = 0,
         cachedValue = Some demoShutdown, cacheHit = True\<rparr>
     = (Inl Navigate,
        [DtekClock, DtekClock, DtekClock, DtekClock, DtekClock, DtekClock, BrowserFetch ''c'' ''s''],
        \<lparr>city = ''c'', street = ''s'', house = ''1'', cachedAt = 0,
          cachedValue = Some demoShutdown, cacheHit = True\<rparr>)
   \<and> GetShutdown (dtekDemoEnv (Inl Navigate)) [DtekClock]
       \<lparr>city = ''c'', street = ''s'', house = ''1'', cachedAt = 0,
         cachedValue = Some demoShutdown, cacheHit = True\<rparr>
     = (Inr (Some demoShutdown), [DtekClock, DtekClock],
        \<lparr>city = ''c'', street = ''s'', house = ''1'', cachedAt = 0,
          cachedValue = Some demoShutdown, cacheHit = True\<rparr>)"
proof -
  let ?d = "\<lparr>city = ''c'', street = ''s'', house = ''1'', cachedAt = 0,
         cachedValue = Some demoShutdown, cacheHit = True\<rparr>"
  let ?tr = "[DtekClock, DtekClock, DtekClock, DtekClock, DtekClock]"
  have m: "\<not> (cacheHit ?d \<and> dtekNow (dtekDemoEnv (Inl Navigate)) (?tr @ [DtekClock]) - cachedAt ?d
               < dtekCacheTTL)"
    by (simp add: dtekDemoEnv_def clockCount_def dtekCacheTTL_def Minute_def Second_def)
  have f: "FetchShutdowns (dtekDemoEnv (Inl Navigate)) (if cacheHit ?d then ?tr @ [DtekClock] else ?tr) ?d
             = (Inl Navigate, ?tr @ [DtekClock, BrowserFetch ''c'' ''s''])"
    by (simp add: FetchShutdowns_def dtekDemoEnv_def)
  have h: "cacheHit ?d \<and> dtekNow (dtekDemoEnv (Inl Navigate)) ([DtekClock] @ [DtekClock]) - cachedAt ?d
               < dtekCacheTTL"
    by (simp add: dtekDemoEnv_def clockCount_def dtekCacheTTL_def Minute_def Second_def)
  show ?thesis
    using GetShutdown_failed_fetch
      [of ?d "dtekDemoEnv (Inl Navigate)" ?tr Navigate "?tr @ [DtekClock, BrowserFetch ''c'' ''s'']"
          ?d "[DtekClock]"] m f h
    by simp
qed


section \<open>The power state monitor: notifications\<close>

lemma checkAndNotify_failed:
  "checkAndNotify de (Inl err) st = ([], st)"
  by (simp add: checkAndNotify_def)

lemma checkAndNotify_first:
  assumes "lastHasGrid st = None"
  shows "\<exists>line st'. checkAndNotify de (Inr status) st = ([formatStatusMessage status line], st')
           \<and> lastHasGrid st' = Some (HasGrid status)"
  using assms by (simp add: checkAndNotify_def Let_def split: prod.splits)

lemma checkAndNotify_changed:
  assumes "lastHasGrid st = Some prev" and "HasGrid status \<noteq> prev"
  shows "\<exists>line st'. checkAndNotify de (Inr status) st =
             ([if HasGrid status then formatPowerOnMessage status line
               else formatPowerOffMessage status line], st')
           \<and> lastHasGrid st' = Some (HasGrid status)"
  using assms by (auto simp: checkAndNotify_def Let_def split: prod.splits)

lemma checkAndNotify_unchanged:
  assumes "lastHasGrid st = Some prev" and "HasGrid status = prev"
  shows "checkAndNotify de (Inr status) st = ([], st)"
  using assms by (simp add: checkAndNotify_def Let_def)

lemma pollCycles_append:
  "pollCycles de st (xs @ ys) =
     (case pollCycles de st xs of
        (outs1, st1) \<Rightarrow> (case pollCycles de st1 ys of (outs2, st2) \<Rightarrow> (outs1 @ outs2, st2)))"
  by (induction xs arbitrary: st) (auto split: prod.splits)

lemma pollCycles_snoc:
  assumes "pollCycles de st xs = (outs, st1)" and "checkAndNotify de x st1 = (out, st2)"
  shows "pollCycles de st (xs @ [x]) = (outs @ [out], st2)"
  using assms by (simp add: pollCycles_append)

lemma checkAndNotify_flag:
  "lastHasGrid (snd (checkAndNotify de sample st)) =
     (case sample of Inl err \<Rightarrow> lastHasGrid st | Inr status \<Rightarrow> Some (HasGrid status))"
  by (auto simp: checkAndNotify_def Let_def split: sum.splits option.splits prod.splits)

lemma precedingFlag_snoc:
  "precedingFlag (xs @ [x]) =
     (case x of Inl err \<Rightarrow> precedingFlag xs | Inr status \<Rightarrow> Some (HasGrid status))"
  by (induction xs) (auto split: sum.splits option.splits)

lemma pollCycles_flag:
  "lastHasGrid (snd (pollCycles de st xs)) =
     (case precedingFlag xs of Some f \<Rightarrow> Some f | None \<Rightarrow> lastHasGrid st)"
proof (induction xs rule: rev_induct)
  case Nil
  show ?case by simp
next
  case (snoc x xs)
  obtain outs st1 where p: "pollCycles de st xs = (outs, st1)"
    by (cases "pollCycles de st xs") auto
  obtain out st2 where c: "checkAndNotify de x st1 = (out, st2)"
    by (cases "checkAndNotify de x st1") auto
  have "lastHasGrid st2 =
      (case x of Inl err \<Rightarrow> lastHasGrid st1 | Inr status \<Rightarrow> Some (HasGrid status))"
    using checkAndNotify_flag [of de x st1] c by simp
  then show ?case
    using snoc p pollCycles_snoc [OF p c]
    by (auto simp: precedingFlag_snoc split: sum.splits option.splits)
qed

lemma pollCycles_all_failed:
  assumes "\<forall>s\<in>set xs. isl s"
  shows "pollCycles de st xs = (replicate (length xs) [], st)"
  using assms
  by (induction xs) (auto simp: checkAndNotify_def isl_def)

text \<open>
  Claim C7. The first successful poll of a run, after any number of failed ones, hands
  exactly one message to the broadcast, the status message of that sample and no
  power-on or power-off alert; nothing was broadcast before it; and the sampled flag
  becomes the stored state.
\<close>

theorem first_sample_initial_status:
  assumes "\<forall>s\<in>set failed. isl s"
  shows "\<exists>line st. runDeyePoller de tr d (failed @ [Inr status])
             = (replicate (length failed) [] @ [[formatStatusMessage status line]], st)
           \<and> \<not> isAlert (formatStatusMessage status line)
           \<and> lastHasGrid st = Some (HasGrid status)"
proof -
  let ?st0 = "\<lparr>lastHasGrid = None, dtekTrace = tr, dtek = d\<rparr>"
  have p: "pollCycles de ?st0 failed = (replicate (length failed) [], ?st0)"
    using pollCycles_all_failed [OF assms] .
  have "lastHasGrid ?st0 = None" by simp
  from checkAndNotify_first [OF this, of de status] obtain line st' where
    c: "checkAndNotify de (Inr status) ?st0 = ([formatStatusMessage status line], st')"
       "lastHasGrid st' = Some (HasGrid status)"
    by blast
  from pollCycles_snoc [OF p c(1)] c(2) show ?thesis
    by (auto simp: runDeyePoller_def)
qed

theorem first_sample_initial_status_witness:
  "runDeyePoller (dtekDemoEnv (Inr noOutages)) [] (NewDtekClient ''c'' ''s'' ''1'')
       [Inl (GetStation RequestFailed), Inr (demoStatus False)]
     = ([[], [formatStatusMessage (demoStatus False) LineNoShutdown]],
        \<lparr>lastHasGrid = Some False, dtekTrace = [BrowserFetch ''c'' ''s'', DtekClock],
          dtek = \<lparr>city = ''c'', street = ''s'', house = ''1'', cachedAt = 0, cachedValue = None,
                   cacheHit = True\<rparr>\<rparr>)"
proof -
  have f: "\<forall>s\<in>set [Inl (GetStation RequestFailed) :: error + PowerStatus]. isl s"
    by simp
  have r: "runDeyePoller (dtekDemoEnv (Inr noOutages)) [] (NewDtekClient ''c'' ''s'' ''1'')
       [Inl (GetStation RequestFailed), Inr (demoStatus False)]
     = ([[], [formatStatusMessage (demoStatus False) LineNoShutdown]],
        \<lparr>lastHasGrid = Some False, dtekTrace = [BrowserFetch ''c'' ''s'', DtekClock],
          dtek = \<lparr>city = ''c'', street = ''s'', house = ''1'', cachedAt = 0, cachedValue = None,
                   cacheHit = True\<rparr>\<rparr>)"
    by (simp add: runDeyePoller_def checkAndNotify_def ShutdownLine_def GetShutdown_def
        FetchShutdowns_def dtekDemoEnv_def noOutages_def NewDtekClient_def clockCount_def
        demoStatus_def Let_def)
  show ?thesis
    using first_sample_initial_status [OF f, of "dtekDemoEnv (Inr noOutages)" "[]"
        "NewDtekClient ''c'' ''s'' ''1''" "demoStatus False"] r
    by simp
qed

text \<open>
  Claim C2. In a run of the monitor, take the cycles \<open>earlier\<close> and the cycle after them,
  with the sample \<open>sample\<close>. The stored flag before that cycle is the flag of the most
  recent successful sample among \<open>earlier\<close>. If the cycle's fetch fails, the cycle
  broadcasts nothing and leaves the state as it is. If it succeeds and there was a
  successful sample before, with flag \<open>prev\<close>, the cycle broadcasts an alert if and only
  if its flag differs from \<open>prev\<close>; it then broadcasts exactly one message, the power-on
  alert for a true flag and the power-off alert for a false one, and otherwise nothing.
\<close>

theorem notification_iff_flag_changed:
  assumes "runDeyePoller de tr d earlier = (outs, st)"
      and "checkAndNotify de sample st = (out, st')"
  shows "runDeyePoller de tr d (earlier @ [sample]) = (outs @ [out], st')
         \<and> lastHasGrid st = precedingFlag earlier
         \<and> (\<forall>err. sample = Inl err \<longrightarrow> out = [] \<and> st' = st)
         \<and> (\<forall>status prev. sample = Inr status \<and> precedingFlag earlier = Some prev \<longrightarrow>
               ((\<exists>m\<in>set out. isAlert m) \<longleftrightarrow> HasGrid status \<noteq> prev)
               \<and> (HasGrid status \<noteq> prev \<longrightarrow>
                    (\<exists>line. out = [if HasGrid status then formatPowerOnMessage status line
                                    else formatPowerOffMessage status line]))
               \<and> (HasGrid status = prev \<longrightarrow> out = [])
               \<and> lastHasGrid st' = Some (HasGrid status))"
proof (intro conjI allI impI)
  show "runDeyePoller de tr d (earlier @ [sample]) = (outs @ [out], st')"
    using assms pollCycles_snoc by (simp add: runDeyePoller_def)
  show f: "lastHasGrid st = precedingFlag earlier"
    using assms(1) pollCycles_flag [of de "\<lparr>lastHasGrid = None, dtekTrace = tr, dtek = d\<rparr>" earlier]
    by (simp add: runDeyePoller_def split: option.splits)
  {
    fix err assume "sample = Inl err"
    then show "out = []" and "st' = st"
      using assms(2) by (simp_all add: checkAndNotify_failed)
  }
  {
    fix status prev
    assume a: "sample = Inr status \<and> precedingFlag earlier = Some prev"
    then have l: "lastHasGrid st = Some prev" using f by simp
    have c: "checkAndNotify de (Inr status) st = (out, st')" using a assms(2) by simp
    show "(\<exists>m\<in>set out. isAlert m) \<longleftrightarrow> HasGrid status \<noteq> prev"
      using checkAndNotify_changed [OF l, of status de] checkAndNotify_unchanged [OF l, of status de] c
      by (cases "HasGrid status = prev") auto
    show "lastHasGrid st' = Some (HasGrid status)"
      using checkAndNotify_flag [of de "Inr status" st] c by simp
    {
      assume "HasGrid status \<noteq> prev"
      then show "\<exists>line. out = [if HasGrid status then formatPowerOnMessage status line
                                    else formatPowerOffMessage status line]"
        using checkAndNotify_changed [OF l, of status de] c by auto
    }
    {
      assume "HasGrid status = prev"
      then show "out = []"
        using checkAndNotify_unchanged [OF l, of status de] c by simp
    }
  }
qed

theorem notification_iff_flag_changed_witness:
  "runDeyePoller (dtekDemoEnv (Inr noOutages)) [] (NewDtekClient ''c'' ''s'' ''1'')
       ([Inr (demoStatus True)] @ [Inr (demoStatus False)])
     = ([[formatStatusMessage (demoStatus True) LineNoShutdown]]
          @ [[formatPowerOffMessage (demoStatus False) LineNoShutdown]],
        \<lparr>lastHasGrid = Some False,
          dtekTrace = [BrowserFetch ''c'' ''s'', DtekClock, DtekClock],
          dtek = \<lparr>city = ''c'', street = ''s'', house = ''1'', cachedAt = 0, cachedValue = None,
                   cacheHit = True\<rparr>\<rparr>)
   \<and> runDeyePoller (dtekDemoEnv (Inr noOutages)) [] (NewDtekClient ''c'' ''s'' ''1'')
       ([Inr (demoStatus True)] @ [Inl (GetStation RequestFailed)])
     = ([[formatStatusMessage (demoStatus True) LineNoShutdown]] @ [[]],
        \<lparr>lastHasGrid = Some True,
          dtekTrace = [BrowserFetch ''c'' ''s'', DtekClock],
          dtek = \<lparr>city = ''c'', street = ''s'', house = ''1'', cachedAt = 0, cachedValue = None,
                   cacheHit = True\<rparr>\<rparr>)"
proof -
  let ?de = "dtekDemoEnv (Inr noOutages)"
  let ?d1 = "\<lparr>city = ''c'', street = ''s'', house = ''1'', cachedAt = 0, cachedValue = None,
               cacheHit = True\<rparr>"
  let ?st1 = "\<lparr>lastHasGrid = Some True, dtekTrace = [BrowserFetch ''c'' ''s'', DtekClock],
                dtek = ?d1\<rparr>"
  let ?st2 = "\<lparr>lastHasGrid = Some False,
                dtekTrace = [BrowserFetch ''c'' ''s'', DtekClock, DtekClock], dtek = ?d1\<rparr>"
  have r: "runDeyePoller ?de [] (NewDtekClient ''c'' ''s'' ''1'') [Inr (demoStatus True)]
             = ([[formatStatusMessage (demoStatus True) LineNoShutdown]], ?st1)"
    by (simp add: runDeyePoller_def checkAndNotify_def ShutdownLine_def GetShutdown_def
        FetchShutdowns_def dtekDemoEnv_def noOutages_def NewDtekClient_def clockCount_def
        demoStatus_def Let_def)
  have c: "checkAndNotify ?de (Inr (demoStatus False)) ?st1
             = ([formatPowerOffMessage (demoStatus False) LineNoShutdown], ?st2)"
    by (simp add: checkAndNotify_def ShutdownLine_def GetShutdown_def dtekDemoEnv_def
        clockCount_def demoStatus_def dtekCacheTTL_def Minute_def Second_def Let_def)
  have f: "checkAndNotify ?de (Inl (GetStation RequestFailed)) ?st1 = ([], ?st1)"
    by (simp add: checkAndNotify_def)
  show ?thesis
    using notification_iff_flag_changed [OF r c] notification_iff_flag_changed [OF r f]
    by simp
qed


section \<open>Concurrent callers of getToken: what the lock gives\<close>

lemma lockInv_entry: "lockInv (callersAtEntry c tr)"
  by (simp add: lockInv_def callersAtEntry_def holdsLock_def)

lemma holdsLock_simps:
  "\<not> holdsLock GT_Lock1" "holdsLock GT_Read" "\<not> holdsLock (GT_Check tok expired)"
  "\<not> holdsLock AU_Lock" "holdsLock AU_Exchange" "\<not> holdsLock GT_Lock2" "holdsLock GT_Read2"
  "\<not> holdsLock (Done r)"
  by (simp_all add: holdsLock_def)

lemma stepThread_lockInv:
  assumes "stepThread e t s = Some s'" and "lockInv s"
  shows "lockInv s'"
proof -
  have A: "\<And>u. holdsLock (pcs s u) = (mu s = Some u)"
    using assms(2) by (simp add: lockInv_def)
  show ?thesis
  proof (cases "pcs s t")
    case GT_Lock1
    with assms(1) have "mu s = None" and "s' = s\<lparr>mu := Some t, pcs := (pcs s)(t := GT_Read)\<rparr>"
      by (auto simp: stepThread_def split: if_splits)
    then show ?thesis using A by (auto simp: lockInv_def holdsLock_simps)
  next
    case GT_Read
    then have m: "mu s = Some t" using A [of t] by (simp add: holdsLock_simps)
    from GT_Read assms(1) have "mu s' = None" and "\<And>u. pcs s' u = (if u = t then
        GT_Check (accessToken (client s)) (expiresAt (client s) < timeNow e (trace s @ [ClockRead]))
        else pcs s u)"
      by (auto simp: stepThread_def)
    then show ?thesis using A m by (auto simp: lockInv_def holdsLock_simps)
  next
    case (GT_Check tok expired)
    then have m: "mu s \<noteq> Some t" using A [of t] by (simp add: holdsLock_simps)
    from GT_Check assms(1) have "mu s' = mu s" and "\<And>u. pcs s' u = (if u = t then
        (if tok = [] \<or> expired then AU_Lock else Done (Inr tok)) else pcs s u)"
      by (auto simp: stepThread_def)
    then show ?thesis using A m by (auto simp: lockInv_def holdsLock_simps)
  next
    case AU_Lock
    with assms(1) have "mu s = None" and "s' = s\<lparr>mu := Some t, pcs := (pcs s)(t := AU_Exchange)\<rparr>"
      by (auto simp: stepThread_def split: if_splits)
    then show ?thesis using A by (auto simp: lockInv_def holdsLock_simps)
  next
    case AU_Exchange
    then have m: "mu s = Some t" using A [of t] by (simp add: holdsLock_simps)
    obtain r tr1 c1 where a: "Authenticate e (trace s) (client s) = (r, tr1, c1)"
      by (cases "Authenticate e (trace s) (client s)") auto
    define p where "p = (case r of Inl err \<Rightarrow> Done (Inl err) | Inr u \<Rightarrow> GT_Lock2)"
    have np: "\<not> holdsLock p"
      by (simp add: p_def holdsLock_simps split: sum.splits)
    have s': "mu s' = None" "pcs s' = (pcs s)(t := p)"
      using AU_Exchange assms(1) a by (auto simp: stepThread_def p_def split: sum.splits)
    show ?thesis
      unfolding lockInv_def
    proof
      fix u
      show "holdsLock (pcs s' u) = (mu s' = Some u)"
        using s' np A [of u] m by (cases "u = t") auto
    qed
  next
    case GT_Lock2
    with assms(1) have "mu s = None" and "s' = s\<lparr>mu := Some t, pcs := (pcs s)(t := GT_Read2)\<rparr>"
      by (auto simp: stepThread_def split: if_splits)
    then show ?thesis using A by (auto simp: lockInv_def holdsLock_simps)
  next
    case GT_Read2
    then have m: "mu s = Some t" using A [of t] by (simp add: holdsLock_simps)
    from GT_Read2 assms(1) have "mu s' = None" and "\<And>u. pcs s' u = (if u = t then
        Done (Inr (accessToken (client s))) else pcs s u)"
      by (auto simp: stepThread_def)
    then show ?thesis using A m by (auto simp: lockInv_def holdsLock_simps)
  next
    case (Done r)
    with assms(1) show ?thesis by (simp add: stepThread_def)
  qed
qed

lemma runSchedule_lockInv:
  assumes "runSchedule e sched s = Some s'" and "lockInv s"
  shows "lockInv s'"
  using assms
proof (induction sched arbitrary: s)
  case Nil
  then show ?case by simp
next
  case (Cons t ts)
  then show ?case
    by (auto split: option.splits dest: stepThread_lockInv)
qed

lemma lockInv_exclusive:
  assumes "lockInv s" and "holdsLock (pcs s t)" and "holdsLock (pcs s t')"
  shows "t = t'"
  using assms by (auto simp: lockInv_def)

lemma Authenticate_tokenPosts:
  assumes "Authenticate e tr c = (r, tr1, c1)"
  shows "tokenPosts tr1 \<le> tokenPosts tr + 1"
  using assms
  by (auto simp: Authenticate_def Let_def tokenPosts_def isTokenPost_def
           split: option.splits if_splits httpResult.splits)

lemma card_before_update:
  assumes "finite T" and "beforeExchange p' \<longrightarrow> beforeExchange (f t)"
  shows "card {u \<in> T. beforeExchange ((f(t := p')) u)} \<le> card {u \<in> T. beforeExchange (f u)}"
proof (rule card_mono)
  show "finite {u \<in> T. beforeExchange (f u)}" using assms(1) by simp
  show "{u \<in> T. beforeExchange ((f(t := p')) u)} \<subseteq> {u \<in> T. beforeExchange (f u)}"
    using assms(2) by auto
qed

lemma card_before_leave:
  assumes "finite T" and "t \<in> T" and "beforeExchange (f t)" and "\<not> beforeExchange p'"
  shows "card {u \<in> T. beforeExchange ((f(t := p')) u)} + 1 \<le> card {u \<in> T. beforeExchange (f u)}"
proof -
  have e: "{u \<in> T. beforeExchange ((f(t := p')) u)} = {u \<in> T. beforeExchange (f u)} - {t}"
    using assms(4) by auto
  have m: "t \<in> {u \<in> T. beforeExchange (f u)}" using assms(2,3) by simp
  have fin: "finite {u \<in> T. beforeExchange (f u)}" using assms(1) by simp
  have "card {u \<in> T. beforeExchange (f u)} \<ge> 1"
    using m fin by (metis One_nat_def Suc_leI card_gt_0_iff empty_iff)
  then show ?thesis
    using e card_Diff_singleton [OF m] by simp
qed

lemma stepThread_potential:
  assumes "stepThread e t s = Some s'" and "finite T" and "t \<in> T"
  shows "tokenPosts (trace s') + card {u \<in> T. beforeExchange (pcs s' u)}
           \<le> tokenPosts (trace s) + card {u \<in> T. beforeExchange (pcs s u)}"
proof (cases "pcs s t = AU_Exchange")
  case True
  obtain r tr1 c1 where a: "Authenticate e (trace s) (client s) = (r, tr1, c1)"
    by (cases "Authenticate e (trace s) (client s)") auto
  define p where "p = (case r of Inl err \<Rightarrow> Done (Inl err) | Inr u \<Rightarrow> GT_Lock2)"
  have np: "\<not> beforeExchange p"
    by (simp add: p_def beforeExchange_def split: sum.splits)
  have s': "trace s' = tr1" "pcs s' = (pcs s)(t := p)"
    using True assms(1) a by (auto simp: stepThread_def p_def split: sum.splits)
  have b: "beforeExchange (pcs s t)" using True by (simp add: beforeExchange_def)
  from card_before_leave [of T t "pcs s" p, OF assms(2,3) b np] Authenticate_tokenPosts [OF a] s'
  show ?thesis by simp
next
  case False
  from False assms(1) obtain p where
    s': "tokenPosts (trace s') = tokenPosts (trace s)" "pcs s' = (pcs s)(t := p)"
        "beforeExchange p \<longrightarrow> beforeExchange (pcs s t)"
    by (cases "pcs s t")
       (auto simp: stepThread_def tokenPosts_def isTokenPost_def beforeExchange_def
             split: if_splits)
  from card_before_update [of T p "pcs s" t, OF assms(2) s'(3)] s'(1,2) show ?thesis by simp
qed

lemma runSchedule_potential:
  assumes "runSchedule e sched s = Some s'" and "finite T" and "set sched \<subseteq> T"
  shows "tokenPosts (trace s') + card {u \<in> T. beforeExchange (pcs s' u)}
           \<le> tokenPosts (trace s) + card {u \<in> T. beforeExchange (pcs s u)}"
  using assms
proof (induction sched arbitrary: s)
  case Nil
  then show ?case by simp
next
  case (Cons t ts)
  from Cons.prems(1) obtain s1 where
    s1: "stepThread e t s = Some s1" "runSchedule e ts s1 = Some s'"
    by (auto split: option.splits)
  have "t \<in> T" and "set ts \<subseteq> T" using Cons.prems(3) by simp_all
  from stepThread_potential [OF s1(1) Cons.prems(2) \<open>t \<in> T\<close>]
       Cons.IH [OF s1(2) Cons.prems(2) \<open>set ts \<subseteq> T\<close>]
  show ?case by linarith
qed

text \<open>
  Run alone, a caller of the interleaved model does what \<open>getToken\<close> does: it returns the
  same result, having done the same to the world and to the client.
\<close>

lemma getToken_run_alone:
  "\<exists>n s. runSchedule e (replicate n t) (callersAtEntry c tr) = Some s
       \<and> pcs s t = Done (fst (getToken e tr c))
       \<and> trace s = fst (snd (getToken e tr c))
       \<and> client s = snd (snd (getToken e tr c))
       \<and> mu s = None"
proof (cases "accessToken c = [] \<or> expiresAt c < timeNow e (tr @ [ClockRead])")
  case False
  then have "runSchedule e (replicate 3 t) (callersAtEntry c tr)
      = Some \<lparr>client = c, mu = None, trace = tr @ [ClockRead],
              pcs = ((\<lambda>u. GT_Lock1)(t := Done (Inr (accessToken c))))\<rparr>"
    by (simp add: numeral_3_eq_3 stepThread_def callersAtEntry_def)
  moreover have "getToken e tr c = (Inr (accessToken c), tr @ [ClockRead], c)"
    using False by (simp add: getToken_def Let_def)
  ultimately show ?thesis
    by (intro exI [of _ 3] exI [of _ "\<lparr>client = c, mu = None, trace = tr @ [ClockRead],
              pcs = ((\<lambda>u. GT_Lock1)(t := Done (Inr (accessToken c))))\<rparr>"]) simp
next
  case True
  obtain r tr1 c1 where a: "Authenticate e (tr @ [ClockRead]) c = (r, tr1, c1)"
    by (cases "Authenticate e (tr @ [ClockRead]) c") auto
  show ?thesis
  proof (cases r)
    case (Inl err)
    have "runSchedule e (replicate 5 t) (callersAtEntry c tr)
      = Some \<lparr>client = c1, mu = None, trace = tr1,
              pcs = ((\<lambda>u. GT_Lock1)(t := Done (Inl err)))\<rparr>"
      using True a Inl
      by (simp add: eval_nat_numeral stepThread_def callersAtEntry_def)
    moreover have "getToken e tr c = (Inl err, tr1, c1)"
      using True a Inl by (simp add: getToken_def Let_def)
    ultimately show ?thesis
      by (intro exI [of _ 5] exI [of _ "\<lparr>client = c1, mu = None, trace = tr1,
              pcs = ((\<lambda>u. GT_Lock1)(t := Done (Inl err)))\<rparr>"]) simp
  next
    case (Inr u)
    have "runSchedule e (replicate 7 t) (callersAtEntry c tr)
      = Some \<lparr>client = c1, mu = None, trace = tr1,
              pcs = ((\<lambda>u. GT_Lock1)(t := Done (Inr (accessToken c1))))\<rparr>"
      using True a Inr
      by (simp add: eval_nat_numeral stepThread_def callersAtEntry_def)
    moreover have "getToken e tr c = (Inr (accessToken c1), tr1, c1)"
      using True a Inr by (simp add: getToken_def Let_def)
    ultimately show ?thesis
      by (intro exI [of _ 7] exI [of _ "\<lparr>client = c1, mu = None, trace = tr1,
              pcs = ((\<lambda>u. GT_Lock1)(t := Done (Inr (accessToken c1))))\<rparr>"]) simp
  qed
qed

lemma runSchedule_append:
  "runSchedule e (xs @ ys) s =
     (case runSchedule e xs s of None \<Rightarrow> None | Some s1 \<Rightarrow> runSchedule e ys s1)"
  by (induction xs arbitrary: s) (auto split: option.splits)

lemma Authenticate_posts_once:
  assumes "canPostToken e c" and "Authenticate e tr c = (r, tr1, c1)"
  shows "tokenPosts tr1 = tokenPosts tr + 1 \<and> canPostToken e c1"
  using assms
  by (auto simp: Authenticate_def canPostToken_def Let_def tokenPosts_def isTokenPost_def
           split: option.splits if_splits httpResult.splits)

lemma exchange_steps:
  assumes "pcs s t = AU_Lock" and "mu s = None"
      and "Authenticate e (trace s) (client s) = (r, tr1, c1)"
  shows "runSchedule e [t, t] s =
           Some (s\<lparr>client := c1, mu := None, trace := tr1,
                   pcs := (pcs s)(t := (case r of Inl err \<Rightarrow> Done (Inl err) | Inr u \<Rightarrow> GT_Lock2))\<rparr>)"
  using assms by (cases r) (simp_all add: stepThread_def)

lemma two_waiting_callers_both_authenticate:
  assumes "pcs s t = AU_Lock" and "pcs s t' = AU_Lock" and "t \<noteq> t'" and "mu s = None"
      and "canPostToken e (client s)"
  shows "\<exists>s'. runSchedule e [t, t, t', t'] s = Some s'
               \<and> tokenPosts (trace s') = tokenPosts (trace s) + 2"
proof -
  obtain r tr1 c1 where a1: "Authenticate e (trace s) (client s) = (r, tr1, c1)"
    by (cases "Authenticate e (trace s) (client s)") auto
  define s1 where "s1 = s\<lparr>client := c1, mu := None, trace := tr1,
      pcs := (pcs s)(t := (case r of Inl err \<Rightarrow> Done (Inl err) | Inr u \<Rightarrow> GT_Lock2))\<rparr>"
  have r1: "runSchedule e [t, t] s = Some s1"
    using exchange_steps [OF assms(1,4) a1] by (simp add: s1_def)
  have p1: "tokenPosts tr1 = tokenPosts (trace s) + 1" "canPostToken e c1"
    using Authenticate_posts_once [OF assms(5) a1] by simp_all
  have w: "pcs s1 t' = AU_Lock" "mu s1 = None" "trace s1 = tr1" "client s1 = c1"
    using assms(2,3) by (simp_all add: s1_def)
  obtain r' tr2 c2 where a2: "Authenticate e (trace s1) (client s1) = (r', tr2, c2)"
    by (cases "Authenticate e (trace s1) (client s1)") auto
  define s2 where "s2 = s1\<lparr>client := c2, mu := None, trace := tr2,
      pcs := (pcs s1)(t' := (case r' of Inl err \<Rightarrow> Done (Inl err) | Inr u \<Rightarrow> GT_Lock2))\<rparr>"
  have r2: "runSchedule e [t', t'] s1 = Some s2"
    using exchange_steps [OF w(1,2) a2] by (simp add: s2_def)
  have p2: "tokenPosts tr2 = tokenPosts tr1 + 1"
    using Authenticate_posts_once [of e c1 tr1 r' tr2 c2] p1(2) a2 w by simp
  have "runSchedule e ([t, t] @ [t', t']) s
          = (case runSchedule e [t, t] s of None \<Rightarrow> None | Some s1 \<Rightarrow> runSchedule e [t', t'] s1)"
    by (rule runSchedule_append)
  also have "\<dots> = runSchedule e [t', t'] s1"
    by (simp only: r1 option.case)
  also have "\<dots> = Some s2" by (rule r2)
  finally have r: "runSchedule e [t, t, t', t'] s = Some s2"
    by (simp only: append.simps)
  have "tokenPosts (trace s2) = tokenPosts (trace s) + 2"
    using p1(1) p2 by (simp add: s2_def)
  with r show ?thesis by (intro exI [of _ s2] conjI)
qed

lemma two_callers_reach_the_exchange:
  assumes "staleForTwo e tr c" and "t \<noteq> t'"
  shows "runSchedule e [t, t, t, t', t', t'] (callersAtEntry c tr)
           = Some \<lparr>client = c, mu = None, trace = tr @ [ClockRead, ClockRead],
                   pcs = (\<lambda>u. GT_Lock1)(t := AU_Lock, t' := AU_Lock)\<rparr>"
  using assms
  by (auto simp: staleForTwo_def stepThread_def callersAtEntry_def)

text \<open>
  Claim C4, amended. However callers of \<open>getToken\<close> are interleaved: at most one of them
  is inside a region guarded by the lock; a caller that reads the token and its expiry,
  runs the exchange with the provider or re-reads the token holds the lock, so at most
  one exchange is in flight at any time; a caller that has made the expiry check and has
  not yet started the exchange does not hold the lock; the callers together send at most
  one authentication request per caller; and when two callers have both found the token
  missing or expired and the lock is free, they run the exchange one after the other and
  two authentication requests are sent. Two callers entering one after the other at a
  moment when the token is missing or expired get there, so two authentication requests
  are sent for one missing token.
\<close>

theorem getToken_callers_serialized:
  assumes "runSchedule e sched (callersAtEntry c tr) = Some s"
  shows "(\<forall>t t'. holdsLock (pcs s t) \<and> holdsLock (pcs s t') \<longrightarrow> t = t')
         \<and> (\<forall>t. pcs s t = AU_Exchange \<longrightarrow> mu s = Some t)
         \<and> (\<forall>t. pcs s t = GT_Read \<or> pcs s t = GT_Read2 \<longrightarrow> mu s = Some t)
         \<and> (\<forall>t tok expired. pcs s t = GT_Check tok expired \<or> pcs s t = AU_Lock
                \<longrightarrow> mu s \<noteq> Some t)
         \<and> tokenPosts (trace s) \<le> tokenPosts tr + card (set sched)
         \<and> (\<forall>t t'. t \<noteq> t' \<and> pcs s t = AU_Lock \<and> pcs s t' = AU_Lock \<and> mu s = None
                  \<and> canPostToken e (client s) \<longrightarrow>
               (\<exists>s'. runSchedule e (sched @ [t, t, t', t']) (callersAtEntry c tr) = Some s'
                    \<and> tokenPosts (trace s') = tokenPosts (trace s) + 2))
         \<and> (\<forall>t t'. t \<noteq> t' \<and> staleForTwo e tr c \<and> canPostToken e c \<longrightarrow>
               (\<exists>s'. runSchedule e [t, t, t, t', t', t', t, t, t', t'] (callersAtEntry c tr) = Some s'
                    \<and> tokenPosts (trace s') = tokenPosts tr + 2))"
proof (intro conjI allI impI)
  have inv: "lockInv s"
    using runSchedule_lockInv [OF assms lockInv_entry] .
  have A: "\<And>u. holdsLock (pcs s u) = (mu s = Some u)"
    using inv by (simp add: lockInv_def)
  {
    fix t t' assume "holdsLock (pcs s t) \<and> holdsLock (pcs s t')"
    then show "t = t'" using lockInv_exclusive [OF inv] by blast
  }
  {
    fix t assume x: "pcs s t = AU_Exchange"
    then show "mu s = Some t" using A [of t] by (simp add: holdsLock_simps)
  }
  {
    fix t assume x: "pcs s t = GT_Read \<or> pcs s t = GT_Read2"
    then show "mu s = Some t" using A [of t] by (auto simp: holdsLock_simps)
  }
  {
    fix t tok expired assume x: "pcs s t = GT_Check tok expired \<or> pcs s t = AU_Lock"
    then show "mu s \<noteq> Some t" using A [of t] by (auto simp: holdsLock_simps)
  }
  {
    have "tokenPosts (trace s) + card {u \<in> set sched. beforeExchange (pcs s u)}
            \<le> tokenPosts tr + card {u \<in> set sched. beforeExchange (pcs (callersAtEntry c tr) u)}"
      using runSchedule_potential [OF assms, of "set sched"]
      by (simp add: callersAtEntry_def)
    moreover have "card {u \<in> set sched. beforeExchange (pcs (callersAtEntry c tr) u)}
                     \<le> card (set sched)"
      by (intro card_mono) auto
    ultimately show "tokenPosts (trace s) \<le> tokenPosts tr + card (set sched)"
      by linarith
  }
  {
    fix t t' :: 'a
    assume x: "t \<noteq> t' \<and> pcs s t = AU_Lock \<and> pcs s t' = AU_Lock \<and> mu s = None
                 \<and> canPostToken e (client s)"
    then have h: "pcs s t = AU_Lock" "pcs s t' = AU_Lock" "t \<noteq> t'" "mu s = None"
        "canPostToken e (client s)"
      by simp_all
    from two_waiting_callers_both_authenticate [OF h] obtain s' where
      s': "runSchedule e [t, t, t', t'] s = Some s'"
          "tokenPosts (trace s') = tokenPosts (trace s) + 2"
      by (elim exE conjE)
    have "runSchedule e (sched @ [t, t, t', t']) (callersAtEntry c tr)
            = (case runSchedule e sched (callersAtEntry c tr) of
                 None \<Rightarrow> None | Some s1 \<Rightarrow> runSchedule e [t, t, t', t'] s1)"
      by (rule runSchedule_append)
    also have "\<dots> = runSchedule e [t, t, t', t'] s"
      by (simp only: assms option.case)
    also have "\<dots> = Some s'" by (rule s'(1))
    finally show "\<exists>s'. runSchedule e (sched @ [t, t, t', t']) (callersAtEntry c tr) = Some s'
                    \<and> tokenPosts (trace s') = tokenPosts (trace s) + 2"
      using s'(2) by (intro exI [of _ s'] conjI)
  }
  {
    fix t t'
    assume x: "t \<noteq> t' \<and> staleForTwo e tr c \<and> canPostToken e c"
    define s0 where "s0 = \<lparr>client = c, mu = None, trace = tr @ [ClockRead, ClockRead],
                   pcs = (\<lambda>u. GT_Lock1)(t := AU_Lock, t' := AU_Lock)\<rparr>"
    have r0: "runSchedule e [t, t, t, t', t', t'] (callersAtEntry c tr) = Some s0"
      using two_callers_reach_the_exchange [of e tr c t t'] x by (simp add: s0_def)
    have h: "pcs s0 t = AU_Lock" "pcs s0 t' = AU_Lock" "t \<noteq> t'" "mu s0 = None"
        "canPostToken e (client s0)"
      using x by (simp_all add: s0_def)
    from two_waiting_callers_both_authenticate [OF h] obtain s' where
      s': "runSchedule e [t, t, t', t'] s0 = Some s'"
          "tokenPosts (trace s') = tokenPosts (trace s0) + 2"
      by (elim exE conjE)
    have "runSchedule e ([t, t, t, t', t', t'] @ [t, t, t', t']) (callersAtEntry c tr)
            = (case runSchedule e [t, t, t, t', t', t'] (callersAtEntry c tr) of
                 None \<Rightarrow> None | Some s1 \<Rightarrow> runSchedule e [t, t, t', t'] s1)"
      by (rule runSchedule_append)
    also have "\<dots> = runSchedule e [t, t, t', t'] s0"
      by (simp only: r0 option.case)
    also have "\<dots> = Some s'" by (rule s'(1))
    finally have r: "runSchedule e [t, t, t, t', t', t', t, t, t', t'] (callersAtEntry c tr) = Some s'"
      by (simp only: append.simps)
    have "trace s0 = tr @ [ClockRead, ClockRead]" by (simp add: s0_def)
    then have "tokenPosts (trace s') = tokenPosts tr + 2"
      using s'(2) by (simp add: tokenPosts_def isTokenPost_def)
    with r show "\<exists>s'. runSchedule e [t, t, t, t', t', t', t, t, t', t'] (callersAtEntry c tr)
                             = Some s'
                    \<and> tokenPosts (trace s') = tokenPosts tr + 2"
      by (intro exI [of _ s'] conjI)
  }
qed

text \<open>
  Two callers of a client without token. After three steps each, both have found the
  token missing and wait for the free lock; from there four more steps send two
  authentication requests. After nine steps the first has sent its request and the
  second is in the exchange, holding the lock.
\<close>

theorem getToken_callers_serialized_witness:
  "\<exists>sA sB s'.
      runSchedule (demoEnv acceptAll (demoStation None None) (demoDevice []))
          [False, False, False, True, True, True] (callersAtEntry freshClient []) = Some sA
       \<and> pcs sA False = AU_Lock \<and> pcs sA True = AU_Lock \<and> mu sA = None
       \<and> mu sA \<noteq> Some False \<and> tokenPosts (trace sA) = 0
       \<and> runSchedule (demoEnv acceptAll (demoStation None None) (demoDevice []))
          ([False, False, False, True, True, True] @ [False, False, True, True])
          (callersAtEntry freshClient []) = Some s'
       \<and> tokenPosts (trace s') = 2
       \<and> runSchedule (demoEnv acceptAll (demoStation None None) (demoDevice []))
          [False, False, False, True, True, True, False, False, True]
          (callersAtEntry freshClient []) = Some sB
       \<and> pcs sB False = GT_Lock2 \<and> pcs sB True = AU_Exchange
       \<and> holdsLock (pcs sB True) \<and> \<not> holdsLock (pcs sB False)
       \<and> mu sB = Some True
       \<and> tokenPosts (trace sB) = 1
       \<and> tokenPosts (trace sB)
           \<le> tokenPosts [] + card (set [False, False, False, True, True, True, False, False, True])"
proof -
  let ?e = "demoEnv acceptAll (demoStation None None) (demoDevice [])"
  have "map_option (\<lambda>s. (mu s, pcs s False, pcs s True, tokenPosts (trace s), client s))
          (runSchedule ?e [False, False, False, True, True, True] (callersAtEntry freshClient []))
        = Some (None, AU_Lock, AU_Lock, 0, freshClient)"
    by code_simp
  then obtain sA where sA:
    "runSchedule ?e [False, False, False, True, True, True] (callersAtEntry freshClient []) = Some sA"
    "mu sA = None" "pcs sA False = AU_Lock" "pcs sA True = AU_Lock" "tokenPosts (trace sA) = 0"
    "client sA = freshClient"
    by auto
  have "map_option (\<lambda>s. (mu s, pcs s False, pcs s True, tokenPosts (trace s)))
          (runSchedule ?e [False, False, False, True, True, True, False, False, True]
             (callersAtEntry freshClient []))
        = Some (Some True, GT_Lock2, AU_Exchange, 1)"
    by code_simp
  then obtain sB where sB:
    "runSchedule ?e [False, False, False, True, True, True, False, False, True]
       (callersAtEntry freshClient []) = Some sB"
    "mu sB = Some True" "pcs sB False = GT_Lock2" "pcs sB True = AU_Exchange"
    "tokenPosts (trace sB) = 1"
    by auto
  have can: "canPostToken ?e (client sA)"
    unfolding sA(6) by code_simp
  note tA = getToken_callers_serialized [OF sA(1)]
  note tB = getToken_callers_serialized [OF sB(1)]
  have hA: "False \<noteq> True \<and> pcs sA False = AU_Lock \<and> pcs sA True = AU_Lock \<and> mu sA = None
          \<and> canPostToken ?e (client sA)"
    using sA can by simp
  have "\<exists>s'. runSchedule ?e ([False, False, False, True, True, True] @ [False, False, True, True])
                 (callersAtEntry freshClient []) = Some s'
             \<and> tokenPosts (trace s') = tokenPosts (trace sA) + 2"
    using tA [THEN conjunct2, THEN conjunct2, THEN conjunct2, THEN conjunct2, THEN conjunct2,
              THEN conjunct1, rule_format, of False True, OF hA] .
  then obtain s' where s':
    "runSchedule ?e ([False, False, False, True, True, True] @ [False, False, True, True])
       (callersAtEntry freshClient []) = Some s'"
    "tokenPosts (trace s') = tokenPosts (trace sA) + 2"
    by (elim exE conjE)
  have "pcs sA False = GT_Check [] True \<or> pcs sA False = AU_Lock"
    using sA(3) by simp
  then have nA: "mu sA \<noteq> Some False"
    using tA [THEN conjunct2, THEN conjunct2, THEN conjunct2, THEN conjunct1, rule_format,
              of False "[]" True] by simp
  have bB: "tokenPosts (trace sB)
           \<le> tokenPosts [] + card (set [False, False, False, True, True, True, False, False, True])"
    using tB [THEN conjunct2, THEN conjunct2, THEN conjunct2, THEN conjunct2, THEN conjunct1] .
  have hB: "holdsLock (pcs sB True)" "\<not> holdsLock (pcs sB False)"
    using sB by (simp_all add: holdsLock_def)
  have two: "tokenPosts (trace s') = 2"
    using s'(2) sA(5) by simp
  show ?thesis
    using sA(1,2,3,4,5) nA s'(1) two sB(1,2,3,4,5) hB bB
    by (intro exI [of _ sA] exI [of _ sB] exI [of _ s'] conjI)
qed

text \<open>
  Claim C4 as stated fails. Two callers find no token. The first reads and tests under
  the lock and releases it (after its two steps the lock is free and it stands at the
  test); the second does the same; then each takes the lock and runs the exchange, one
  after the other: two authentication requests are sent for one missing token.
\<close>

theorem getToken_duplicate_authentication_counterexample:
  "map_option mu
      (runSchedule (demoEnv acceptAll (demoStation None None) (demoDevice []))
         [False, False] (callersAtEntry freshClient []))
     = Some None
   \<and> map_option (pcOf False)
      (runSchedule (demoEnv acceptAll (demoStation None None) (demoDevice []))
         [False, False] (callersAtEntry freshClient []))
     = Some (GT_Check [] True)
   \<and> map_option trace
      (runSchedule (demoEnv acceptAll (demoStation None None) (demoDevice []))
         [False, False, False, True, True, True, False, False, True, True]
         (callersAtEntry freshClient []))
     = Some [ClockRead, ClockRead, tokenPost, ClockRead, tokenPost, ClockRead]"
  by code_simp

end
